theory Spec2Isabelle
  imports Complex_Main
begin

section \<open>MENBAR AI Core: the job registry and its task functions\<close>

text \<open>
  A shallow embedding of \<^verbatim>\<open>src/server/app_core.py\<close>: the in-memory task registry
  (\<^verbatim>\<open>tasks_storage\<close>, \<^verbatim>\<open>update_task_status\<close>, \<^verbatim>\<open>get_task_status\<close>), the processing
  functions, the four background task functions and the endpoints that submit and
  query jobs.

  Python values are a datatype, dictionaries are association lists in insertion order,
  exceptions are values of a sum type (\<open>Inl\<close> is a raised exception), and the global
  state of the process is a record that every function takes and returns.
\<close>

subsection \<open>Python values and exceptions\<close>

text \<open>
  A Python float is a finite number or one of \<^verbatim>\<open>nan\<close>, \<^verbatim>\<open>inf\<close> and \<^verbatim>\<open>-inf\<close>, which
  \<^verbatim>\<open>json.loads\<close> returns for the texts \<^verbatim>\<open>NaN\<close>, \<^verbatim>\<open>Infinity\<close> and \<^verbatim>\<open>-Infinity\<close>.
\<close>

datatype pyfloat = Finite real | NaN | PosInf | NegInf

datatype pyval =
    PNone
  | PBool bool
  | PInt int
  | PFloat pyfloat
  | PStr string
  | PList "pyval list"
  | PDict "(string \<times> pyval) list"

text \<open>
  Every exception the modelled operations raise derives from Python's \<^verbatim>\<open>Exception\<close>;
  no handler of the source looks at the class, only at \<^verbatim>\<open>str(e)\<close>, which is what the
  constructor carries.
\<close>

datatype exn = Exception string

fun str_exn :: "exn \<Rightarrow> string" where
  "str_exn (Exception m) = m"

text \<open>\<^verbatim>\<open>d.get(k)\<close> on a dictionary value.\<close>

fun dict_get :: "pyval \<Rightarrow> string \<Rightarrow> pyval option" where
  "dict_get (PDict kvs) k = map_of kvs k"
| "dict_get _ k = None"

subsection \<open>The environment: libraries and the outside world\<close>

text \<open>
  What the program takes from outside its own text: the operating system's entropy
  (\<^verbatim>\<open>uuid.uuid4\<close>, \<^verbatim>\<open>random\<close>), subprocesses, files, the network and library
  functions (\<^verbatim>\<open>json.loads\<close>, \<^verbatim>\<open>float\<close>, \<^verbatim>\<open>os.path.abspath\<close>, number formatting).
  Each is a parameter; an operation that can raise returns a sum.
\<close>

record env =
  uuid4_src :: "nat \<Rightarrow> string"
    \<comment> \<open>the \<open>n\<close>-th value of \<^verbatim>\<open>uuid.uuid4().hex\<close> drawn by the process\<close>
  random_src :: "nat \<Rightarrow> nat"
    \<comment> \<open>the raw entropy behind the \<open>n\<close>-th call into module \<^verbatim>\<open>random\<close>\<close>
  subprocess_run :: "string list \<Rightarrow> exn + string"
    \<comment> \<open>\<^verbatim>\<open>subprocess.run(cmd, check=True)\<close>: the captured stdout, or the exception of a
        missing binary or a non-zero exit\<close>
  str_strip :: "string \<Rightarrow> string"
    \<comment> \<open>\<^verbatim>\<open>s.strip()\<close>, which removes the whitespace of Unicode at both ends\<close>
  float_of_str :: "string \<Rightarrow> exn + real"
    \<comment> \<open>\<^verbatim>\<open>float(s)\<close>, for the texts of finite numbers\<close>
  float_str :: "real \<Rightarrow> string"
    \<comment> \<open>how an f-string prints a number\<close>
  abspath :: "pyval \<Rightarrow> exn + string"
    \<comment> \<open>\<^verbatim>\<open>os.path.abspath\<close>, which raises on a value that is not a path\<close>
  file_read :: "string \<Rightarrow> exn + string"
    \<comment> \<open>\<^verbatim>\<open>open(p, "rb").read()\<close>\<close>
  file_write :: "string \<Rightarrow> string \<Rightarrow> exn option"
    \<comment> \<open>\<^verbatim>\<open>open(p, "w").write(text)\<close>: \<open>None\<close> when it succeeds\<close>
  requests_post :: "string \<Rightarrow> string \<Rightarrow> exn + string"
    \<comment> \<open>\<^verbatim>\<open>requests.post(url, data=data)\<close>: the body of the response\<close>
  json_loads :: "string \<Rightarrow> exn + pyval"
    \<comment> \<open>\<^verbatim>\<open>json.loads\<close>, also behind \<^verbatim>\<open>response.json()\<close>\<close>
  requests_quote :: "string \<Rightarrow> exn + string"
    \<comment> \<open>\<^verbatim>\<open>requests.utils.quote\<close>\<close>
  http_exception_str :: "int \<Rightarrow> string \<Rightarrow> string"
    \<comment> \<open>\<^verbatim>\<open>str(HTTPException(status_code, detail))\<close>\<close>
  uploads_dir :: string
  outputs_dir :: string

subsection \<open>The state of the process\<close>

text \<open>
  \<open>tasks_storage\<close> is the module's global dictionary. \<open>uuid_pos\<close> and \<open>random_pos\<close>
  count the draws made so far from the two entropy sources. \<open>write_log\<close> is a history
  variable: no code reads it; it records every assignment to \<open>tasks_storage\<close> in order, so
  that properties of the sequence of writes can be stated.
\<close>

record state =
  tasks_storage :: "string \<Rightarrow> pyval option"
  uuid_pos :: nat
  random_pos :: nat
  write_log :: "(string \<times> pyval) list"

definition uuid4_hex :: "env \<Rightarrow> state \<Rightarrow> string \<times> state" where
  "uuid4_hex e s = (uuid4_src e (uuid_pos s), s\<lparr>uuid_pos := Suc (uuid_pos s)\<rparr>)"

subsection \<open>Simple internal task manager\<close>

definition update_task_status ::
  "env \<Rightarrow> string \<Rightarrow> string \<Rightarrow> pyval \<Rightarrow> int \<Rightarrow> state \<Rightarrow> state" where
  "update_task_status e task_id status result progress s =
     (let (tok, s1) = uuid4_hex e s;
          rec = PDict [(''status'', PStr status), (''result'', result),
                       (''progress'', PInt progress), (''updated_at'', PStr tok)]
      in s1\<lparr>tasks_storage := (tasks_storage s1)(task_id \<mapsto> rec),
             write_log := write_log s1 @ [(task_id, rec)]\<rparr>)"

definition get_task_status :: "state \<Rightarrow> string \<Rightarrow> pyval" where
  "get_task_status s task_id =
     (case tasks_storage s task_id of
        Some r \<Rightarrow> r
      | None \<Rightarrow> PDict [(''status'', PStr ''NOT_FOUND''), (''progress'', PInt 0)])"

subsection \<open>Strings\<close>

text \<open>\<^verbatim>\<open>str.split(sep)\<close> for a one-character separator.\<close>

fun split_on :: "char \<Rightarrow> string \<Rightarrow> string list" where
  "split_on sep [] = [[]]"
| "split_on sep (c # cs) =
     (if c = sep then [] # split_on sep cs
      else (case split_on sep cs of
              w # ws \<Rightarrow> (c # w) # ws
            | [] \<Rightarrow> [[c]]))"

fun starts_with :: "string \<Rightarrow> string \<Rightarrow> bool" where
  "starts_with t [] = True"
| "starts_with [] (p # ps) = False"
| "starts_with (c # cs) (p # ps) = (c = p \<and> starts_with cs ps)"

fun contains_str :: "string \<Rightarrow> string \<Rightarrow> bool" where
  "contains_str [] p = (p = [])"
| "contains_str (c # cs) p = (starts_with (c # cs) p \<or> contains_str cs p)"

text \<open>The decimal text of an integer, as an f-string prints it.\<close>

fun nat_str :: "nat \<Rightarrow> string" where
  "nat_str n =
     (if n < 10 then [char_of (48 + n)]
      else nat_str (n div 10) @ [char_of (48 + n mod 10)])"

declare nat_str.simps [simp del]

definition int_str :: "int \<Rightarrow> string" where
  "int_str i = (if i < 0 then ''-'' @ nat_str (nat (- i)) else nat_str (nat i))"

subsection \<open>Python operators on values\<close>

definition type_name :: "pyval \<Rightarrow> string" where
  "type_name v =
     (case v of
        PNone \<Rightarrow> ''NoneType'' | PBool _ \<Rightarrow> ''bool'' | PInt _ \<Rightarrow> ''int''
      | PFloat _ \<Rightarrow> ''float'' | PStr _ \<Rightarrow> ''str'' | PList _ \<Rightarrow> ''list''
      | PDict _ \<Rightarrow> ''dict'')"

definition type_error :: "string \<Rightarrow> pyval \<Rightarrow> string \<Rightarrow> exn" where
  "type_error before v after =
     Exception (before @ [CHR 0x27] @ type_name v @ [CHR 0x27] @ after)"

text \<open>\<^verbatim>\<open>k in v\<close> for a string \<open>k\<close>.\<close>

definition py_in :: "string \<Rightarrow> pyval \<Rightarrow> exn + bool" where
  "py_in k v =
     (case v of
        PDict kvs \<Rightarrow> Inr (List.member (map fst kvs) k)
      | PList xs \<Rightarrow> Inr (List.member xs (PStr k))
      | PStr t \<Rightarrow> Inr (contains_str t k)
      | _ \<Rightarrow> Inl (type_error ''argument of type '' v '' is not iterable''))"

text \<open>The elements \<^verbatim>\<open>enumerate(v)\<close> walks over, and \<^verbatim>\<open>len(v)\<close>.\<close>

definition py_iter :: "pyval \<Rightarrow> exn + pyval list" where
  "py_iter v =
     (case v of
        PList xs \<Rightarrow> Inr xs
      | PStr t \<Rightarrow> Inr (map (\<lambda>c. PStr [c]) t)
      | PDict kvs \<Rightarrow> Inr (map (\<lambda>kv. PStr (fst kv)) kvs)
      | _ \<Rightarrow> Inl (type_error [] v '' object is not iterable''))"

definition py_len :: "pyval \<Rightarrow> exn + int" where
  "py_len v =
     (case v of
        PList xs \<Rightarrow> Inr (int (length xs))
      | PStr t \<Rightarrow> Inr (int (length t))
      | PDict kvs \<Rightarrow> Inr (int (length kvs))
      | _ \<Rightarrow> Inl (type_error ''object of type '' v '' has no len()''))"

subsection \<open>Floating-point numbers\<close>

text \<open>
  A Python float is an IEEE 754 binary64 number. The finite ones are the reals
  \<open>m * 2\<^sup>e\<close> with \<open>\<bar>m\<bar> < 2\<^sup>5\<^sup>3\<close> and \<open>-1074 \<le> e \<le> 971\<close>; a float is modelled as the real it
  denotes. \<^verbatim>\<open>+\<close>, \<^verbatim>\<open>-\<close> and \<^verbatim>\<open>*\<close> on floats give the exact result rounded to the nearest
  double, a tie going to the one whose significand is even: \<open>fl\<close> rounds a real to the
  grid of its binade (\<open>ulp_exp\<close> is the exponent of the grid's step; below \<open>2\<^sup>-\<^sup>1\<^sup>0\<^sup>2\<^sup>2\<close> the
  step stays \<open>2\<^sup>-\<^sup>1\<^sup>0\<^sup>7\<^sup>4\<close>). An integer operand is converted to a float first, which is
  exact for the small integers of this program. NaN, the infinities and the sign of
  zero are not represented, so a result beyond the largest double, an infinity in
  Python, has no counterpart here.
\<close>

definition round_even :: "real \<Rightarrow> int" where
  "round_even y = (let f = \<lfloor>y\<rfloor> in
      if y - of_int f < 1 / 2 then f
      else if y - of_int f > 1 / 2 then f + 1
      else if even f then f else f + 1)"

definition ulp_exp :: "real \<Rightarrow> int" where
  "ulp_exp x = max (\<lfloor>log 2 \<bar>x\<bar>\<rfloor> - 52) (- 1074)"

definition fl :: "real \<Rightarrow> real" where
  "fl x = (if x = 0 then 0
           else sgn x * (of_int (round_even (\<bar>x\<bar> / 2 powi ulp_exp x)) * 2 powi ulp_exp x))"

definition is_double :: "real \<Rightarrow> bool" where
  "is_double x = (\<exists>m e :: int. x = of_int m * 2 powi e \<and> \<bar>m\<bar> < 2 ^ 53 \<and> - 1074 \<le> e \<and> e \<le> 971)"

definition float_add :: "real \<Rightarrow> real \<Rightarrow> real" where
  "float_add a b = fl (a + b)"

definition float_sub :: "real \<Rightarrow> real \<Rightarrow> real" where
  "float_sub a b = fl (a - b)"

definition float_mul :: "real \<Rightarrow> real \<Rightarrow> real" where
  "float_mul a b = fl (a * b)"

subsection \<open>Module random\<close>

text \<open>
  \<^verbatim>\<open>random.random()\<close> is a multiple of \<open>2\<^sup>-\<^sup>5\<^sup>3\<close> in \<open>[0, 1)\<close>; \<^verbatim>\<open>random.uniform(a, b)\<close> is
  \<^verbatim>\<open>a + (b - a) * random()\<close>; \<^verbatim>\<open>random.randint(a, b)\<close> raises \<^verbatim>\<open>ValueError\<close> on an empty
  range and otherwise returns one of \<open>a, \<dots>, b\<close>. The last argument is the raw entropy of
  the call. The product and the sum of \<^verbatim>\<open>uniform\<close> are those of floats.
\<close>

definition random_random :: "nat \<Rightarrow> real" where
  "random_random k = real (k mod 2 ^ 53) / 2 ^ 53"

definition random_uniform :: "real \<Rightarrow> real \<Rightarrow> nat \<Rightarrow> real" where
  "random_uniform a b k = float_add a (float_mul (b - a) (random_random k))"

definition random_randint :: "int \<Rightarrow> int \<Rightarrow> nat \<Rightarrow> exn + int" where
  "random_randint a b k =
     (if b < a
      then Inl (Exception (''empty range in randrange('' @ int_str a @ '', '' @
                           int_str (b + 1) @ '')''))
      else Inr (a + int k mod (b - a + 1)))"

subsection \<open>Core processing logic\<close>

definition ensure_ffmpeg :: "env \<Rightarrow> exn + unit" where
  "ensure_ffmpeg e =
     (case subprocess_run e [''ffmpeg'', ''-version''] of
        Inl _ \<Rightarrow>
          Inl (Exception (http_exception_str e 500 ''FFmpeg is not installed on the server.''))
      | Inr _ \<Rightarrow> Inr ())"

text \<open>
  The bare \<^verbatim>\<open>except:\<close> catches whatever the probe or the conversion raises. The
  duration is a finite float, the real it denotes: the texts \<^verbatim>\<open>nan\<close> and \<^verbatim>\<open>inf\<close>, which
  \<^verbatim>\<open>float\<close> parses as well, are outside the model.
\<close>

definition get_audio_duration :: "env \<Rightarrow> string \<Rightarrow> exn + real" where
  "get_audio_duration e path =
     (let cmd = [''ffprobe'', ''-v'', ''error'', ''-show_entries'', ''format=duration'',
                 ''-of'', ''default=noprint_wrappers=1:nokey=1'', path]
      in case subprocess_run e cmd of
           Inl _ \<Rightarrow> Inr 300
         | Inr out \<Rightarrow>
             (case float_of_str e (str_strip e out) of
                Inl _ \<Rightarrow> Inr 300
              | Inr d \<Rightarrow> Inr d))"

definition mix_audio_aza :: "env \<Rightarrow> string \<Rightarrow> string \<Rightarrow> string \<Rightarrow> exn + unit" where
  "mix_audio_aza e vocal_path slap_path output_path =
     (case ensure_ffmpeg e of
        Inl x \<Rightarrow> Inl x
      | Inr _ \<Rightarrow>
          (let filter_complex =
                 ''[0:a]highpass=f=150,acompressor=threshold=-16dB:ratio=4:attack=5:release=50[voc];'' @
                 ''[1:a]lowpass=f=3000,alimiter=limit=0.8[slap];'' @
                 ''[voc][slap]amix=inputs=2:weights=1 0.7:normalize=0[out]'';
               cmd = [''ffmpeg'', ''-y'', ''-i'', vocal_path, ''-i'', slap_path,
                      ''-filter_complex'', filter_complex, ''-map'', ''[out]'', output_path]
           in case subprocess_run e cmd of
                Inl x \<Rightarrow> Inl x
              | Inr _ \<Rightarrow> Inr ()))"

text \<open>
  The user-facing texts of the source are Arabic; the theory is ASCII, so each is named
  and stands as an English gloss. No function reads a message.
\<close>

definition msg_cloud_error :: string where
  "msg_cloud_error = ''[cloud connection error - please try again later]''"

definition msg_mix_start :: string where
  "msg_mix_start = ''starting to mix the tracks...''"

definition msg_srt_start :: string where
  "msg_srt_start = ''analysing tones and synchronising...''"

definition msg_montage_start :: string where
  "msg_montage_start = ''starting the analysis of the audio fingerprint...''"

definition msg_montage_duration :: string where
  "msg_montage_duration = ''duration analysed. distributing the cameras...''"

definition msg_montage_build :: string where
  "msg_montage_build = ''building a complete Premiere project...''"

definition msg_montage_done :: string where
  "msg_montage_done = ''the automatic director finished successfully!''"

definition srt_block :: "string \<Rightarrow> string" where
  "srt_block line =
     ''1'' @ [CHR 0x0A] @ ''00:00:01,000 --> 00:00:10,000'' @ [CHR 0x0A] @ line @ [CHR 0x0A]"

text \<open>The body of the \<^verbatim>\<open>try\<close> of \<^verbatim>\<open>generate_srt_via_ai\<close>, then the function with its handler.\<close>

definition generate_srt_via_ai_try ::
  "env \<Rightarrow> string \<Rightarrow> string \<Rightarrow> state \<Rightarrow> (exn + string) \<times> state" where
  "generate_srt_via_ai_try e audio_path lyrics s =
     (let (u, s1) = uuid4_hex e s;
          vocal_only_path = uploads_dir e @ ''/vocal_iso_'' @ u @ ''.mp3''
      in case ensure_ffmpeg e of
           Inl x \<Rightarrow> (Inl x, s1)
         | Inr _ \<Rightarrow>
      (let filter_str = ''highpass=f=150,lowpass=f=3000,acompressor=threshold=-16dB:ratio=4'';
           cmd = [''ffmpeg'', ''-y'', ''-i'', audio_path, ''-af'', filter_str, vocal_only_path]
       in case subprocess_run e cmd of
            Inl x \<Rightarrow> (Inl x, s1)
          | Inr _ \<Rightarrow>
      (let url = ''https://api-inference.huggingface.co/models/openai/whisper-large-v3''
       in case file_read e audio_path of
            Inl x \<Rightarrow> (Inl x, s1)
          | Inr data \<Rightarrow>
      (case requests_post e url data of
         Inl x \<Rightarrow> (Inl x, s1)
       | Inr body \<Rightarrow>
      (case json_loads e body of
         Inl x \<Rightarrow> (Inl x, s1)
       | Inr result \<Rightarrow>
      (case py_in ''text'' result of
         Inl x \<Rightarrow> (Inl x, s1)
       | Inr has_text \<Rightarrow>
           if \<not> has_text then (Inr (srt_block msg_cloud_error), s1)
           else
             (let user_lines =
                    map (str_strip e) (filter (\<lambda>l. str_strip e l \<noteq> []) (split_on (CHR 0x0A) lyrics))
              in (Inr (srt_block (case user_lines of l # _ \<Rightarrow> l | [] \<Rightarrow> ''...'')), s1))))))))"

definition generate_srt_via_ai ::
  "env \<Rightarrow> string \<Rightarrow> string \<Rightarrow> state \<Rightarrow> (exn + string) \<times> state" where
  "generate_srt_via_ai e audio_path lyrics s =
     (case generate_srt_via_ai_try e audio_path lyrics s of
        (Inl x, s1) \<Rightarrow> (Inr (''ALIGMENT_ERROR: '' @ str_exn x), s1)
      | (Inr srt, s1) \<Rightarrow> (Inr srt, s1))"

subsection \<open>The montage timeline\<close>

text \<open>One \<^verbatim>\<open><video>\<close> element of the spine: camera index, offset and duration.\<close>

datatype clip = Clip (cam_idx: int) (clip_offset: real) (clip_duration: real)

definition cut_duration :: "string \<Rightarrow> int" where
  "cut_duration style = (if style = ''internal'' then 3 else 6)"

text \<open>
  The \<^verbatim>\<open>while\<close> loop of \<^verbatim>\<open>generate_premiere_xml\<close>. The source appends the text of each
  element to \<^verbatim>\<open>clips_xml\<close>; here the loop collects the elements and \<open>clips_xml\<close> prints
  them. \<open>n\<close> is the position in the entropy of module \<^verbatim>\<open>random\<close>. The sums and the
  difference are those of floats. The source starts \<^verbatim>\<open>current_time\<close> at the integer 0,
  which an f-string prints without a fraction; how a number prints is left to
  \<open>float_str\<close>. The loop need not end: far above \<open>2\<^sup>5\<^sup>3\<close> the sum of \<^verbatim>\<open>current_time\<close> and a
  duration rounds back to \<^verbatim>\<open>current_time\<close>. The result is \<open>None\<close> then.
\<close>

partial_function (option) premiere_cuts ::
  "env \<Rightarrow> string \<Rightarrow> real \<Rightarrow> int \<Rightarrow> nat \<Rightarrow> real \<Rightarrow> clip list \<Rightarrow> ((exn + clip list) \<times> nat) option" where
  "premiere_cuts e style total_duration cam_count n current_time clips =
     (if current_time < total_duration then
        (case random_randint 0 (cam_count - 1) (random_src e n) of
           Inl x \<Rightarrow> Some (Inl x, n)
         | Inr cam \<Rightarrow>
             (let drawn = random_uniform (real_of_int (cut_duration style - 1))
                            (real_of_int (cut_duration style + 2)) (random_src e (Suc n));
                  duration = (if float_add current_time drawn > total_duration
                              then float_sub total_duration current_time else drawn)
              in premiere_cuts e style total_duration cam_count (n + 2)
                   (float_add current_time duration) (clips @ [Clip cam current_time duration])))
      else Some (Inr clips, n))"


definition xml_header :: "env \<Rightarrow> string \<Rightarrow> string" where
  \<open>xml_header e audio_full_path =
     ''<?xml version="1.0" encoding="UTF-8"?>'' @ [CHR 0x0A] @
     ''<!DOCTYPE fcpxml>'' @ [CHR 0x0A] @
     ''<fcpxml version="1.8">'' @ [CHR 0x0A] @
     ''    <resources>'' @ [CHR 0x0A] @
     ''        <format id="r1" name="FFVideoFormat1080p25" frameDuration="100/2500s" width="1920" height="1080"/>'' @ [CHR 0x0A] @
     ''        <asset id="audio1" name="MasterAudio" src="file://'' @ audio_full_path @ ''" />'' @ [CHR 0x0A]\<close>

definition asset_xml :: "int \<Rightarrow> string \<Rightarrow> string" where
  \<open>asset_xml i abs_v =
     ''        <asset id="cam'' @ int_str i @ ''" name="Camera_'' @ int_str (i + 1) @
     ''" src="file://'' @ abs_v @ ''" />'' @ [CHR 0x0A]\<close>

text \<open>The \<^verbatim>\<open>for i, v in enumerate(video_paths)\<close> loop, from index \<open>i\<close> on.\<close>

fun assets_xml :: "env \<Rightarrow> int \<Rightarrow> pyval list \<Rightarrow> exn + string" where
  "assets_xml e i [] = Inr []"
| "assets_xml e i (v # vs) =
     (case abspath e v of
        Inl x \<Rightarrow> Inl x
      | Inr abs_v \<Rightarrow>
          (case assets_xml e (i + 1) vs of
             Inl x \<Rightarrow> Inl x
           | Inr rest \<Rightarrow> Inr (asset_xml i abs_v @ rest)))"

definition sequence_xml :: "env \<Rightarrow> real \<Rightarrow> string" where
  \<open>sequence_xml e total_duration =
     ''    </resources>'' @ [CHR 0x0A] @
     ''    <library>'' @ [CHR 0x0A] @
     ''        <event name="MENBAR AI Montage">'' @ [CHR 0x0A] @
     ''            <project name="AI_Montage_Result">'' @ [CHR 0x0A] @
     ''                <sequence format="r1" duration="'' @ float_str e total_duration @ ''s">'' @ [CHR 0x0A] @
     ''                    <spine>'' @ [CHR 0x0A]\<close>

definition clip_xml :: "env \<Rightarrow> clip \<Rightarrow> string" where
  \<open>clip_xml e c =
     ''                        <video name="Cam_'' @ int_str (cam_idx c + 1) @
     ''" offset="'' @ float_str e (clip_offset c) @ ''s" ref="cam'' @ int_str (cam_idx c) @
     ''" duration="'' @ float_str e (clip_duration c) @ ''s" start="0s" />'' @ [CHR 0x0A]\<close>

definition clips_xml :: "env \<Rightarrow> clip list \<Rightarrow> string" where
  "clips_xml e clips = concat (map (clip_xml e) clips)"

definition xml_footer :: string where
  "xml_footer =
     ''                    </spine>'' @ [CHR 0x0A] @
     ''                </sequence>'' @ [CHR 0x0A] @
     ''            </project>'' @ [CHR 0x0A] @
     ''        </event>'' @ [CHR 0x0A] @
     ''    </library>'' @ [CHR 0x0A] @
     ''</fcpxml>''"

text \<open>
  A loop that never ends keeps appending to \<^verbatim>\<open>clips_xml\<close> until no memory is left:
  Python raises \<^verbatim>\<open>MemoryError\<close>, an \<^verbatim>\<open>Exception\<close> whose text is empty.
\<close>

definition generate_premiere_xml ::
  "env \<Rightarrow> string \<Rightarrow> pyval \<Rightarrow> string \<Rightarrow> real \<Rightarrow> state \<Rightarrow> (exn + string) \<times> state" where
  "generate_premiere_xml e audio_path video_paths style total_duration s =
     (case abspath e (PStr audio_path) of
        Inl x \<Rightarrow> (Inl x, s)
      | Inr audio_full_path \<Rightarrow>
     (case py_iter video_paths of
        Inl x \<Rightarrow> (Inl x, s)
      | Inr vs \<Rightarrow>
     (case assets_xml e 0 vs of
        Inl x \<Rightarrow> (Inl x, s)
      | Inr assets_str \<Rightarrow>
     (case py_len video_paths of
        Inl x \<Rightarrow> (Inl x, s)
      | Inr cam_count \<Rightarrow>
     (case premiere_cuts e style total_duration cam_count (random_pos s) 0 [] of
        None \<Rightarrow> (Inl (Exception []), s)
      | Some (Inl x, n) \<Rightarrow> (Inl x, s\<lparr>random_pos := n\<rparr>)
      | Some (Inr clips, n) \<Rightarrow>
          (Inr (xml_header e audio_full_path @ assets_str @ sequence_xml e total_duration @
                clips_xml e clips @ xml_footer),
           s\<lparr>random_pos := n\<rparr>))))))"

subsection \<open>Task functions\<close>

text \<open>
  Each task function is one \<^verbatim>\<open>try\<close> with one handler, \<^verbatim>\<open>except Exception as e\<close>. The
  body of the \<^verbatim>\<open>try\<close> is a function of its own (\<open>_try\<close>) that returns the exception it
  stops at; the task function applies the handler. A task function returns
  \<open>Inr ()\<close> when it returns normally and \<open>Inl x\<close> when \<open>x\<close> leaves it. A task function
  runs from its first statement to its last on the state it is given: the interleaving
  of tasks that run at the same time is not modelled.
\<close>

definition run_mix_task_try ::
  "env \<Rightarrow> string \<Rightarrow> string \<Rightarrow> string \<Rightarrow> state \<Rightarrow> (exn + unit) \<times> state" where
  "run_mix_task_try e task_id vocal_path slap_path s =
     (let s1 = update_task_status e task_id ''processing''
                 (PDict [(''message'', PStr msg_mix_start)]) 10 s;
          out_file = outputs_dir e @ ''/mix_'' @ task_id @ ''.mp3''
      in case mix_audio_aza e vocal_path slap_path out_file of
           Inl x \<Rightarrow> (Inl x, s1)
         | Inr _ \<Rightarrow>
             (Inr (), update_task_status e task_id ''completed''
                        (PDict [(''output_url'', PStr (''/outputs/mix_'' @ task_id @ ''.mp3'')),
                                (''file_path'', PStr out_file)]) 100 s1))"

definition run_mix_task ::
  "env \<Rightarrow> string \<Rightarrow> string \<Rightarrow> string \<Rightarrow> state \<Rightarrow> (exn + unit) \<times> state" where
  "run_mix_task e task_id vocal_path slap_path s =
     (case run_mix_task_try e task_id vocal_path slap_path s of
        (Inl x, s1) \<Rightarrow>
          (Inr (), update_task_status e task_id ''failed''
                     (PDict [(''error'', PStr (str_exn x))]) 0 s1)
      | (Inr _, s1) \<Rightarrow> (Inr (), s1))"

definition run_srt_sync_task_try ::
  "env \<Rightarrow> string \<Rightarrow> string \<Rightarrow> string \<Rightarrow> state \<Rightarrow> (exn + unit) \<times> state" where
  "run_srt_sync_task_try e task_id audio_path lyrics s =
     (let s1 = update_task_status e task_id ''processing''
                 (PDict [(''message'', PStr msg_srt_start)]) 10 s
      in case generate_srt_via_ai e audio_path lyrics s1 of
           (Inl x, s2) \<Rightarrow> (Inl x, s2)
         | (Inr srt_content, s2) \<Rightarrow>
             (let srt_filename = ''sync_'' @ task_id @ ''.srt'';
                  srt_path = outputs_dir e @ ''/'' @ srt_filename
              in case file_write e srt_path srt_content of
                   Some x \<Rightarrow> (Inl x, s2)
                 | None \<Rightarrow>
                     (Inr (), update_task_status e task_id ''completed''
                                (PDict [(''output_url'', PStr (''/outputs/'' @ srt_filename)),
                                        (''file_path'', PStr srt_path),
                                        (''srt_content'', PStr srt_content)]) 100 s2)))"

definition run_srt_sync_task ::
  "env \<Rightarrow> string \<Rightarrow> string \<Rightarrow> string \<Rightarrow> state \<Rightarrow> (exn + unit) \<times> state" where
  "run_srt_sync_task e task_id audio_path lyrics s =
     (case run_srt_sync_task_try e task_id audio_path lyrics s of
        (Inl x, s1) \<Rightarrow>
          (Inr (), update_task_status e task_id ''failed''
                     (PDict [(''error'', PStr (str_exn x))]) 0 s1)
      | (Inr _, s1) \<Rightarrow> (Inr (), s1))"

text \<open>\<^verbatim>\<open>time.sleep(1.5)\<close> between the second and the third write changes no state.\<close>

definition run_montage_task_try ::
  "env \<Rightarrow> string \<Rightarrow> string \<Rightarrow> pyval \<Rightarrow> string \<Rightarrow> string \<Rightarrow> state \<Rightarrow> (exn + unit) \<times> state" where
  "run_montage_task_try e task_id audio_path video_paths lyrics style s =
     (let s1 = update_task_status e task_id ''processing''
                 (PDict [(''message'', PStr msg_montage_start)]) 10 s
      in case get_audio_duration e audio_path of
           Inl x \<Rightarrow> (Inl x, s1)
         | Inr duration \<Rightarrow>
     (let s2 = update_task_status e task_id ''processing''
                 (PDict [(''message'', PStr msg_montage_duration)]) 35 s1;
          s3 = update_task_status e task_id ''processing''
                 (PDict [(''message'', PStr msg_montage_build)]) 70 s2
      in case generate_premiere_xml e audio_path video_paths style duration s3 of
           (Inl x, s4) \<Rightarrow> (Inl x, s4)
         | (Inr xml_content, s4) \<Rightarrow>
             (let xml_filename = ''montage_'' @ task_id @ ''.xml'';
                  xml_path = outputs_dir e @ ''/'' @ xml_filename
              in case file_write e xml_path xml_content of
                   Some x \<Rightarrow> (Inl x, s4)
                 | None \<Rightarrow>
                     (Inr (), update_task_status e task_id ''completed''
                                (PDict [(''output_url'', PStr (''/outputs/'' @ xml_filename)),
                                        (''file_path'', PStr xml_path),
                                        (''message'', PStr msg_montage_done)]) 100 s4))))"

definition run_montage_task ::
  "env \<Rightarrow> string \<Rightarrow> string \<Rightarrow> pyval \<Rightarrow> string \<Rightarrow> string \<Rightarrow> state \<Rightarrow> (exn + unit) \<times> state" where
  "run_montage_task e task_id audio_path video_paths lyrics style s =
     (case run_montage_task_try e task_id audio_path video_paths lyrics style s of
        (Inl x, s1) \<Rightarrow>
          (Inr (), update_task_status e task_id ''failed''
                     (PDict [(''error'', PStr (str_exn x))]) 0 s1)
      | (Inr _, s1) \<Rightarrow> (Inr (), s1))"

definition run_image_gen_task_try ::
  "env \<Rightarrow> string \<Rightarrow> string \<Rightarrow> state \<Rightarrow> (exn + unit) \<times> state" where
  "run_image_gen_task_try e task_id prompt s =
     (let s1 = update_task_status e task_id ''processing'' PNone 50 s
      in case requests_quote e prompt of
           Inl x \<Rightarrow> (Inl x, s1)
         | Inr safe_prompt \<Rightarrow>
             (let image_url = ''https://image.pollinations.ai/prompt/'' @ safe_prompt @
                              ''?width=1024&height=1024&nologo=true''
              in (Inr (), update_task_status e task_id ''completed''
                            (PDict [(''data'', PList [PDict [(''url'', PStr image_url)]])]) 100 s1)))"

definition run_image_gen_task ::
  "env \<Rightarrow> string \<Rightarrow> string \<Rightarrow> state \<Rightarrow> (exn + unit) \<times> state" where
  "run_image_gen_task e task_id prompt s =
     (case run_image_gen_task_try e task_id prompt s of
        (Inl x, s1) \<Rightarrow>
          (Inr (), update_task_status e task_id ''failed''
                     (PDict [(''error'', PStr (str_exn x))]) 0 s1)
      | (Inr _, s1) \<Rightarrow> (Inr (), s1))"

subsection \<open>The endpoints\<close>

text \<open>
  \<^verbatim>\<open>background_tasks.add_task(f, args)\<close> appends a call to the request's list of
  background tasks; the framework runs the list after the response is sent.
\<close>

datatype task =
    Run_mix_task string string string
  | Run_srt_sync_task string string string
  | Run_montage_task string string pyval string string
  | Run_image_gen_task string string

fun run_task :: "env \<Rightarrow> task \<Rightarrow> state \<Rightarrow> (exn + unit) \<times> state" where
  "run_task e (Run_mix_task task_id vocal_path slap_path) s =
     run_mix_task e task_id vocal_path slap_path s"
| "run_task e (Run_srt_sync_task task_id audio_path lyrics) s =
     run_srt_sync_task e task_id audio_path lyrics s"
| "run_task e (Run_montage_task task_id audio_path video_paths lyrics style) s =
     run_montage_task e task_id audio_path video_paths lyrics style s"
| "run_task e (Run_image_gen_task task_id prompt) s =
     run_image_gen_task e task_id prompt s"

text \<open>
  An endpoint takes the request's background task list and the state, and returns its
  response (or the exception that leaves it), the list and the state.
\<close>

type_synonym response = "(exn + pyval) \<times> task list \<times> state"

definition start_mix :: "env \<Rightarrow> task list \<Rightarrow> string \<Rightarrow> string \<Rightarrow> state \<Rightarrow> response" where
  "start_mix e background_tasks vocal_path slap_path s =
     (let (job_id, s1) = uuid4_hex e s;
          s2 = update_task_status e job_id ''pending'' PNone 0 s1
      in (Inr (PDict [(''job_id'', PStr job_id)]),
          background_tasks @ [Run_mix_task job_id vocal_path slap_path], s2))"

definition start_srt_sync :: "env \<Rightarrow> task list \<Rightarrow> string \<Rightarrow> string \<Rightarrow> state \<Rightarrow> response" where
  "start_srt_sync e background_tasks audio_path lyrics s =
     (let (job_id, s1) = uuid4_hex e s;
          s2 = update_task_status e job_id ''pending'' PNone 0 s1
      in (Inr (PDict [(''job_id'', PStr job_id)]),
          background_tasks @ [Run_srt_sync_task job_id audio_path lyrics], s2))"

definition start_montage ::
  "env \<Rightarrow> task list \<Rightarrow> string \<Rightarrow> string \<Rightarrow> string \<Rightarrow> string \<Rightarrow> state \<Rightarrow> response" where
  "start_montage e background_tasks audio_path video_paths lyrics style s =
     (case json_loads e video_paths of
        Inl x \<Rightarrow> (Inl x, background_tasks, s)
      | Inr v_list \<Rightarrow>
          (let (job_id, s1) = uuid4_hex e s;
               s2 = update_task_status e job_id ''pending'' PNone 0 s1
           in (Inr (PDict [(''job_id'', PStr job_id)]),
               background_tasks @ [Run_montage_task job_id audio_path v_list lyrics style], s2)))"

definition start_image_gen :: "env \<Rightarrow> task list \<Rightarrow> string \<Rightarrow> state \<Rightarrow> response" where
  "start_image_gen e background_tasks prompt s =
     (let (job_id, s1) = uuid4_hex e s;
          s2 = update_task_status e job_id ''pending'' PNone 0 s1
      in (Inr (PDict [(''job_id'', PStr job_id)]),
          background_tasks @ [Run_image_gen_task job_id prompt], s2))"

definition get_status :: "string \<Rightarrow> state \<Rightarrow> (exn + pyval) \<times> state" where
  "get_status job_id s = (Inr (get_task_status s job_id), s)"

section \<open>Reading records, write histories and timelines\<close>

text \<open>The fields of a registry record that the properties speak of.\<close>

definition status_of :: "pyval \<Rightarrow> string" where
  "status_of r = (case dict_get r ''status'' of Some (PStr st) \<Rightarrow> st | _ \<Rightarrow> [])"

definition progress_of :: "pyval \<Rightarrow> int option" where
  "progress_of r = (case dict_get r ''progress'' of Some (PInt p) \<Rightarrow> Some p | _ \<Rightarrow> None)"

definition write_summary :: "string \<times> pyval \<Rightarrow> string \<times> string \<times> int option" where
  "write_summary w = (fst w, status_of (snd w), progress_of (snd w))"

definition write_statuses :: "(string \<times> pyval) list \<Rightarrow> string list" where
  "write_statuses ws = map (\<lambda>w. status_of (snd w)) ws"

fun task_id_of :: "task \<Rightarrow> string" where
  "task_id_of (Run_mix_task task_id _ _) = task_id"
| "task_id_of (Run_srt_sync_task task_id _ _) = task_id"
| "task_id_of (Run_montage_task task_id _ _ _ _) = task_id"
| "task_id_of (Run_image_gen_task task_id _) = task_id"

text \<open>
  The order of the job life cycle, \<open>pending < processing < {completed, failed}\<close>, as a
  rank; a string that is no status ranks above all of them.
\<close>

definition status_rank :: "string \<Rightarrow> nat" where
  "status_rank st =
     (if st = ''pending'' then 0 else if st = ''processing'' then 1
      else if st = ''completed'' \<or> st = ''failed'' then 2 else 3)"

definition terminal :: "string \<Rightarrow> bool" where
  "terminal st = (st = ''completed'' \<or> st = ''failed'')"

fun no_write_after_terminal :: "string list \<Rightarrow> bool" where
  "no_write_after_terminal [] = True"
| "no_write_after_terminal (st # rest) =
     ((terminal st \<longrightarrow> rest = []) \<and> no_write_after_terminal rest)"

text \<open>The registry after the writes \<open>ws\<close> are made, in order, to the registry \<open>m\<close>.\<close>

definition replay ::
  "(string \<Rightarrow> pyval option) \<Rightarrow> (string \<times> pyval) list \<Rightarrow> (string \<Rightarrow> pyval option)" where
  "replay m ws = foldl (\<lambda>m w. m(fst w \<mapsto> snd w)) m ws"

text \<open>The summaries of the writes one run of a task function can make, over all four kinds.\<close>

definition task_traces :: "string \<Rightarrow> (string \<times> string \<times> int option) list set" where
  "task_traces tid =
     {[(tid, ''processing'', Some 10), (tid, ''completed'', Some 100)],
      [(tid, ''processing'', Some 10), (tid, ''failed'', Some 0)],
      [(tid, ''processing'', Some 10), (tid, ''processing'', Some 35),
       (tid, ''processing'', Some 70), (tid, ''completed'', Some 100)],
      [(tid, ''processing'', Some 10), (tid, ''processing'', Some 35),
       (tid, ''processing'', Some 70), (tid, ''failed'', Some 0)],
      [(tid, ''processing'', Some 50), (tid, ''completed'', Some 100)],
      [(tid, ''processing'', Some 50), (tid, ''failed'', Some 0)]}"

subsection \<open>Timelines\<close>





subsection \<open>Submissions, polling and the parts of a task function\<close>

text \<open>The four submission endpoints as one operation, \<open>Submit(kind, params)\<close>.\<close>

datatype submission =
    Mix string string
  | Srt_sync string string
  | Montage string string string string
  | Image_gen string

fun submit :: "env \<Rightarrow> task list \<Rightarrow> submission \<Rightarrow> state \<Rightarrow> response" where
  "submit e background_tasks (Mix vocal_path slap_path) s =
     start_mix e background_tasks vocal_path slap_path s"
| "submit e background_tasks (Srt_sync audio_path lyrics) s =
     start_srt_sync e background_tasks audio_path lyrics s"
| "submit e background_tasks (Montage audio_path video_paths lyrics style) s =
     start_montage e background_tasks audio_path video_paths lyrics style s"
| "submit e background_tasks (Image_gen prompt) s =
     start_image_gen e background_tasks prompt s"

text \<open>A client that polls the status endpoint \<open>n\<close> times in a row.\<close>

fun poll :: "nat \<Rightarrow> string \<Rightarrow> state \<Rightarrow> (exn + pyval) list \<times> state" where
  "poll 0 job_id s = ([], s)"
| "poll (Suc n) job_id s =
     (case get_status job_id s of
        (r, s1) \<Rightarrow> (case poll n job_id s1 of (rs, s2) \<Rightarrow> (r # rs, s2)))"

text \<open>The body of the \<^verbatim>\<open>try\<close> of the task function that runs a scheduled task.\<close>

fun run_task_try :: "env \<Rightarrow> task \<Rightarrow> state \<Rightarrow> (exn + unit) \<times> state" where
  "run_task_try e (Run_mix_task task_id vocal_path slap_path) s =
     run_mix_task_try e task_id vocal_path slap_path s"
| "run_task_try e (Run_srt_sync_task task_id audio_path lyrics) s =
     run_srt_sync_task_try e task_id audio_path lyrics s"
| "run_task_try e (Run_montage_task task_id audio_path video_paths lyrics style) s =
     run_montage_task_try e task_id audio_path video_paths lyrics style s"
| "run_task_try e (Run_image_gen_task task_id prompt) s =
     run_image_gen_task_try e task_id prompt s"






text \<open>
  A JSON text (RFC 8259) is one value between whitespace, and a value begins with one of
  \<^verbatim>\<open>[\<close>, \<^verbatim>\<open>{\<close>, a double quote, \<^verbatim>\<open>-\<close>, a digit, \<^verbatim>\<open>t\<close>, \<^verbatim>\<open>f\<close> and \<^verbatim>\<open>n\<close>: a text that
  \<open>starts_like_json\<close> refuses is not valid JSON.
\<close>

definition json_space :: "char \<Rightarrow> bool" where
  "json_space c = (c \<in> set [CHR 0x20, CHR 0x09, CHR 0x0A, CHR 0x0D])"

definition starts_like_json :: "string \<Rightarrow> bool" where
  "starts_like_json t =
     (case dropWhile json_space t of
        [] \<Rightarrow> False
      | c # _ \<Rightarrow> c \<in> set (''[{-0123456789tfn'' @ [CHR 0x22]))"

subsection \<open>Progress values\<close>

text \<open>
  Properties of the summaries of a sequence of writes: every progress is an integer from 0
  to 100; the progress values of the writes with status \<open>processing\<close>, in order; every
  write with status \<open>completed\<close> has progress 100; every write is a creation, with status
  \<open>pending\<close> and progress 0.
\<close>

definition progress_in_range :: "(string \<times> string \<times> int option) list \<Rightarrow> bool" where
  "progress_in_range sm =
     list_all (\<lambda>x. case snd (snd x) of Some p \<Rightarrow> 0 \<le> p \<and> p \<le> 100 | None \<Rightarrow> False) sm"

definition processing_progress :: "(string \<times> string \<times> int option) list \<Rightarrow> int list" where
  "processing_progress sm =
     map (\<lambda>x. the (snd (snd x))) (filter (\<lambda>x. fst (snd x) = ''processing'') sm)"

definition completed_at_100 :: "(string \<times> string \<times> int option) list \<Rightarrow> bool" where
  "completed_at_100 sm =
     list_all (\<lambda>x. fst (snd x) = ''completed'' \<longrightarrow> snd (snd x) = Some 100) sm"

definition created_at_0 :: "(string \<times> string \<times> int option) list \<Rightarrow> bool" where
  "created_at_0 sm = list_all (\<lambda>x. fst (snd x) = ''pending'' \<and> snd (snd x) = Some 0) sm"

text \<open>Every record of the registry has an integer progress from 0 to 100.\<close>

definition registry_in_range :: "state \<Rightarrow> bool" where
  "registry_in_range s =
     (\<forall>k r. tasks_storage s k = Some r \<longrightarrow>
        (\<exists>p. progress_of r = Some p \<and> 0 \<le> p \<and> p \<le> 100))"

subsection \<open>A concrete environment and state\<close>

text \<open>\<^verbatim>\<open>str.strip()\<close> on ASCII text, for the environments below.\<close>

definition ascii_space :: "char \<Rightarrow> bool" where
  "ascii_space c =
     (c \<in> set [CHR 0x09, CHR 0x0A, CHR 0x0B, CHR 0x0C, CHR 0x0D,
                CHR 0x1C, CHR 0x1D, CHR 0x1E, CHR 0x1F, CHR 0x20])"

definition ascii_strip :: "string \<Rightarrow> string" where
  "ascii_strip t = rev (dropWhile ascii_space (rev (dropWhile ascii_space t)))"

text \<open>
  An environment in which every outside operation succeeds: the probe prints a duration
  of 10, files are written, and identifiers are \<open>a\<close>, \<open>aa\<close>, \<open>aaa\<close>, \<dots>
\<close>

definition demo_env :: env where
  "demo_env =
     \<lparr>uuid4_src = (\<lambda>n. replicate (Suc n) (CHR ''a'')),
      random_src = (\<lambda>n. 0),
      subprocess_run = (\<lambda>cmd. Inr ''10.0''),
      str_strip = ascii_strip,
      float_of_str = (\<lambda>t. Inr 10),
      float_str = (\<lambda>x. ''x''),
      abspath = (\<lambda>v. case v of PStr p \<Rightarrow> Inr (''/srv/'' @ p)
                               | _ \<Rightarrow> Inl (Exception ''expected str'')),
      file_read = (\<lambda>p. Inr ''data''),
      file_write = (\<lambda>p t. None),
      requests_post = (\<lambda>u d. Inr ''{}''),
      json_loads = (\<lambda>t. Inr (PList [PStr ''cam1.mp4''])),
      requests_quote = (\<lambda>t. Inr t),
      http_exception_str = (\<lambda>c d. d),
      uploads_dir = ''/uploads'',
      outputs_dir = ''/outputs''\<rparr>"

definition init_state :: state where
  "init_state = \<lparr>tasks_storage = Map.empty, uuid_pos = 0, random_pos = 0, write_log = []\<rparr>"

text \<open>Environments in which one outside operation fails or returns an edge value.\<close>

definition bad_json_env :: env where
  "bad_json_env = demo_env\<lparr>json_loads := (\<lambda>t. Inl (Exception ''Expecting value''))\<rparr>"

text \<open>
  \<^verbatim>\<open>json.loads\<close> of Python reads the text \<^verbatim>\<open>NaN\<close>, which is not JSON, as the float \<^verbatim>\<open>nan\<close>.
\<close>

definition lenient_json_env :: env where
  "lenient_json_env =
     demo_env\<lparr>json_loads := (\<lambda>t. if t = ''NaN'' then Inr (PFloat NaN)
                                  else Inl (Exception ''Expecting value''))\<rparr>"

definition no_ffmpeg_env :: env where
  "no_ffmpeg_env =
     demo_env\<lparr>subprocess_run := (\<lambda>cmd. Inl (Exception ''No such file or directory: ffmpeg''))\<rparr>"

definition probe_error_env :: env where
  "probe_error_env = demo_env\<lparr>float_of_str := (\<lambda>t. Inl (Exception ''could not convert string to float''))\<rparr>"

definition no_camera_env :: env where
  "no_camera_env = demo_env\<lparr>json_loads := (\<lambda>t. Inr (PList []))\<rparr>"

definition silent_env :: env where
  "silent_env = demo_env\<lparr>json_loads := (\<lambda>t. Inr (PList [])), float_of_str := (\<lambda>t. Inr 0)\<rparr>"

section \<open>Auxiliary facts\<close>

lemma update_task_status_fields [simp]:
  "tasks_storage (update_task_status e tid st res p s) =
     (tasks_storage s)(tid \<mapsto> PDict [(''status'', PStr st), (''result'', res),
        (''progress'', PInt p), (''updated_at'', PStr (uuid4_src e (uuid_pos s)))])"
  "uuid_pos (update_task_status e tid st res p s) = Suc (uuid_pos s)"
  "random_pos (update_task_status e tid st res p s) = random_pos s"
  "write_log (update_task_status e tid st res p s) =
     write_log s @ [(tid, PDict [(''status'', PStr st), (''result'', res),
        (''progress'', PInt p), (''updated_at'', PStr (uuid4_src e (uuid_pos s)))])]"
  by (simp_all add: update_task_status_def uuid4_hex_def Let_def)

lemma generate_srt_via_ai_fields [simp]:
  "tasks_storage (snd (generate_srt_via_ai e a l s)) = tasks_storage s"
  "uuid_pos (snd (generate_srt_via_ai e a l s)) = Suc (uuid_pos s)"
  "write_log (snd (generate_srt_via_ai e a l s)) = write_log s"
  by (simp_all add: generate_srt_via_ai_def generate_srt_via_ai_try_def uuid4_hex_def Let_def
        split: sum.splits prod.splits)

lemma generate_srt_via_ai_returns: "\<exists>srt. fst (generate_srt_via_ai e a l s) = Inr srt"
  by (simp add: generate_srt_via_ai_def split: sum.splits prod.splits)

lemma generate_premiere_xml_fields [simp]:
  "tasks_storage (snd (generate_premiere_xml e a v st d s)) = tasks_storage s"
  "uuid_pos (snd (generate_premiere_xml e a v st d s)) = uuid_pos s"
  "write_log (snd (generate_premiere_xml e a v st d s)) = write_log s"
  by (simp_all add: generate_premiere_xml_def split: sum.splits prod.splits option.splits)

lemma summary_simps [simp]:
  "write_summary (tid, PDict [(''status'', PStr st), (''result'', res),
        (''progress'', PInt p), (''updated_at'', PStr tok)]) = (tid, st, Some p)"
  by (simp add: write_summary_def status_of_def progress_of_def)

lemma run_mix_task_writes:
  "\<exists>ws. write_log (snd (run_mix_task e tid v sl s)) = write_log s @ ws \<and>
     tasks_storage (snd (run_mix_task e tid v sl s)) = replay (tasks_storage s) ws \<and>
     map write_summary ws \<in>
       {[(tid, ''processing'', Some 10), (tid, ''completed'', Some 100)],
        [(tid, ''processing'', Some 10), (tid, ''failed'', Some 0)]}"
  by (simp add: run_mix_task_def run_mix_task_try_def Let_def replay_def
        split: sum.splits prod.splits)

lemma run_srt_sync_task_writes:
  "\<exists>ws. write_log (snd (run_srt_sync_task e tid a l s)) = write_log s @ ws \<and>
     tasks_storage (snd (run_srt_sync_task e tid a l s)) = replay (tasks_storage s) ws \<and>
     map write_summary ws \<in>
       {[(tid, ''processing'', Some 10), (tid, ''completed'', Some 100)],
        [(tid, ''processing'', Some 10), (tid, ''failed'', Some 0)]}"
proof -
  obtain r s2 where g: "generate_srt_via_ai e a l
      (update_task_status e tid ''processing'' (PDict [(''message'', PStr msg_srt_start)]) 10 s) = (r, s2)"
    by (cases "generate_srt_via_ai e a l
      (update_task_status e tid ''processing'' (PDict [(''message'', PStr msg_srt_start)]) 10 s)")
  have "write_log s2 = write_log s @ [(tid, PDict [(''status'', PStr ''processing''),
          (''result'', PDict [(''message'', PStr msg_srt_start)]),
          (''progress'', PInt 10), (''updated_at'', PStr (uuid4_src e (uuid_pos s)))])]"
    and "tasks_storage s2 = (tasks_storage s)(tid \<mapsto> PDict [(''status'', PStr ''processing''),
          (''result'', PDict [(''message'', PStr msg_srt_start)]),
          (''progress'', PInt 10), (''updated_at'', PStr (uuid4_src e (uuid_pos s)))])"
    using generate_srt_via_ai_fields(1,3) [of e a l
      "update_task_status e tid ''processing'' (PDict [(''message'', PStr msg_srt_start)]) 10 s"] g
    by simp_all
  then show ?thesis
    by (simp add: run_srt_sync_task_def run_srt_sync_task_try_def Let_def g replay_def
          split: sum.splits prod.splits option.splits)
qed


lemma get_audio_duration_returns: "\<exists>d. get_audio_duration e p = Inr d"
  by (simp add: get_audio_duration_def Let_def split: sum.splits)

lemma run_montage_task_writes:
  "\<exists>ws. write_log (snd (run_montage_task e tid a v l st s)) = write_log s @ ws \<and>
     tasks_storage (snd (run_montage_task e tid a v l st s)) = replay (tasks_storage s) ws \<and>
     map write_summary ws \<in>
       {[(tid, ''processing'', Some 10), (tid, ''processing'', Some 35),
         (tid, ''processing'', Some 70), (tid, ''completed'', Some 100)],
        [(tid, ''processing'', Some 10), (tid, ''processing'', Some 35),
         (tid, ''processing'', Some 70), (tid, ''failed'', Some 0)]}"
proof -
  obtain d where d: "get_audio_duration e a = Inr d"
    using get_audio_duration_returns by blast
  define s3 where "s3 =
    update_task_status e tid ''processing'' (PDict [(''message'', PStr msg_montage_build)]) 70
      (update_task_status e tid ''processing'' (PDict [(''message'', PStr msg_montage_duration)]) 35
        (update_task_status e tid ''processing'' (PDict [(''message'', PStr msg_montage_start)]) 10 s))"
  obtain r s4 where g: "generate_premiere_xml e a v st d s3 = (r, s4)"
    by (cases "generate_premiere_xml e a v st d s3")
  have "write_log s4 = write_log s3" and "tasks_storage s4 = tasks_storage s3"
    using generate_premiere_xml_fields(1,3) [of e a v st d s3] g by simp_all
  then show ?thesis
    using g unfolding s3_def
    by (simp add: run_montage_task_def run_montage_task_try_def Let_def d replay_def
          split: sum.splits prod.splits option.splits)
qed

lemma run_image_gen_task_writes:
  "\<exists>ws. write_log (snd (run_image_gen_task e tid p s)) = write_log s @ ws \<and>
     tasks_storage (snd (run_image_gen_task e tid p s)) = replay (tasks_storage s) ws \<and>
     map write_summary ws \<in>
       {[(tid, ''processing'', Some 50), (tid, ''completed'', Some 100)],
        [(tid, ''processing'', Some 50), (tid, ''failed'', Some 0)]}"
  by (simp add: run_image_gen_task_def run_image_gen_task_try_def Let_def replay_def
        split: sum.splits prod.splits)

lemma run_task_writes:
  "\<exists>ws. write_log (snd (run_task e t s)) = write_log s @ ws \<and>
     tasks_storage (snd (run_task e t s)) = replay (tasks_storage s) ws \<and>
     map write_summary ws \<in> task_traces (task_id_of t)"
proof (cases t)
  case (Run_mix_task tid v sl)
  then show ?thesis using run_mix_task_writes [of e tid v sl s]
    by (auto simp: task_traces_def)
next
  case (Run_srt_sync_task tid a l)
  then show ?thesis using run_srt_sync_task_writes [of e tid a l s]
    by (auto simp: task_traces_def)
next
  case (Run_montage_task tid a v l st)
  then show ?thesis using run_montage_task_writes [of e tid a v l st s]
    by (auto simp: task_traces_def)
next
  case (Run_image_gen_task tid p)
  then show ?thesis using run_image_gen_task_writes [of e tid p s]
    by (auto simp: task_traces_def)
qed

lemma write_statuses_summary:
  "write_statuses ws = map (\<lambda>x. fst (snd x)) (map write_summary ws)"
  by (simp add: write_statuses_def write_summary_def)

lemma write_keys_summary: "map fst ws = map fst (map write_summary ws)"
  by (simp add: write_summary_def)

lemma demo_env_fields [simp]:
  "uuid4_src demo_env n = replicate (Suc n) (CHR ''a'')"
  "random_src demo_env n = 0"
  "subprocess_run demo_env cmd = Inr ''10.0''"
  "str_strip demo_env = ascii_strip"
  "float_of_str demo_env t = Inr 10"
  "float_str demo_env x = ''x''"
  "abspath demo_env (PStr p) = Inr (''/srv/'' @ p)"
  "file_read demo_env p = Inr ''data''"
  "file_write demo_env p t = None"
  "requests_post demo_env u d = Inr ''{}''"
  "json_loads demo_env t = Inr (PList [PStr ''cam1.mp4''])"
  "requests_quote demo_env t = Inr t"
  "http_exception_str demo_env c d = d"
  "uploads_dir demo_env = ''/uploads''"
  "outputs_dir demo_env = ''/outputs''"
  by (simp_all add: demo_env_def)

lemma init_state_fields [simp]:
  "tasks_storage init_state = Map.empty"
  "uuid_pos init_state = 0"
  "random_pos init_state = 0"
  "write_log init_state = []"
  by (simp_all add: init_state_def)

subsection \<open>Rounding to a double\<close>

text \<open>
  Rounding is monotone, leaves a double as it is, moves a real below \<open>2\<^sup>5\<^sup>2\<close> by at most a
  quarter and yields a double; the difference of two doubles within a factor of 2 of
  each other is a double (Sterbenz).
\<close>

lemma round_even_int: "round_even (of_int k) = k"
  by (simp add: round_even_def)





lemma floor_log2:
  assumes "0 < x"
  shows "2 powi \<lfloor>log 2 x\<rfloor> \<le> x" and "x < 2 powi (\<lfloor>log 2 x\<rfloor> + 1)"
proof -
  define k where "k = \<lfloor>log 2 x\<rfloor>"
  have "2 powr (of_int k) \<le> x \<and> x < 2 powr (of_int k + 1)"
    using floor_log_eq_powr_iff [of x 2 k] assms by (simp add: k_def)
  moreover have "(2::real) powr (of_int k) = 2 powi k"
    using powr_real_of_int' [of 2 k] by simp
  moreover have "(2::real) powr (of_int k + 1) = 2 powi (k + 1)"
    using powr_real_of_int' [of 2 "k + 1"] by simp
  ultimately show "2 powi \<lfloor>log 2 x\<rfloor> \<le> x" and "x < 2 powi (\<lfloor>log 2 x\<rfloor> + 1)"
    unfolding k_def by simp_all
qed


lemma powi_int: "0 \<le> a \<Longrightarrow> (2::real) powi a = of_int (2 ^ nat a)"
  by (simp add: power_int_def)


lemma powi_add: "(2::real) powi a * 2 powi b = 2 powi (a + b)"
  by (simp add: power_int_add)

lemma powi_diff: "(2::real) powi a / 2 powi b = 2 powi (a - b)"
  by (simp add: power_int_diff)

lemma powi_mono: "a \<le> b \<Longrightarrow> (2::real) powi a \<le> 2 powi b"
  by (simp add: power_int_increasing)

lemma fl_pos:
  "0 < x \<Longrightarrow> fl x = of_int (round_even (x / 2 powi ulp_exp x)) * 2 powi ulp_exp x"
  by (simp add: fl_def)




lemma fl_zero [simp]: "fl 0 = 0"
  by (simp add: fl_def)




lemma powi_less_cancel: "(2::real) powi a < 2 powi b \<Longrightarrow> a < b"
  using powi_mono [of b a] by (cases "a < b") simp_all

lemma ulp_exp_le:
  assumes "0 < x" and "x < 2 powi (k + 1)" and "- 1074 \<le> k - 52"
  shows "ulp_exp x \<le> k - 52"
proof -
  have "2 powi \<lfloor>log 2 x\<rfloor> < (2::real) powi (k + 1)"
    using floor_log2(1) [OF assms(1)] assms(2) by simp
  then have "\<lfloor>log 2 x\<rfloor> < k + 1" by (rule powi_less_cancel)
  with assms(1,3) show ?thesis by (simp add: ulp_exp_def)
qed

lemma fl_exact:
  assumes "is_double x" and "0 \<le> x"
  shows "fl x = x"
proof (cases "x = 0")
  case True
  then show ?thesis by simp
next
  case False
  with assms have x: "0 < x" by simp
  from assms(1) obtain m e :: int where
    xm: "x = of_int m * 2 powi e" and m: "\<bar>m\<bar> < 2 ^ 53" and e: "- 1074 \<le> e"
    unfolding is_double_def by auto
  have "m < 2 ^ 53" using m by simp
  then have "real_of_int m < real_of_int (2 ^ 53)" by (simp only: of_int_less_iff)
  then have "real_of_int m < 2 ^ 53" by simp
  then have "x < 2 ^ 53 * 2 powi e" unfolding xm by simp
  also have "(2::real) ^ 53 * 2 powi e = 2 powi (e + 52 + 1)"
    using powi_add [of 53 e] by (simp add: add.commute)
  finally have "ulp_exp x \<le> e + 52 - 52" using e by (intro ulp_exp_le [OF x]) simp_all
  then have le: "0 \<le> e - ulp_exp x" by simp
  have "x / 2 powi ulp_exp x = of_int m * 2 powi (e - ulp_exp x)"
    unfolding xm by (simp add: powi_diff flip: powi_diff)
  also have "\<dots> = of_int (m * 2 ^ nat (e - ulp_exp x))"
    using powi_int [OF le] by simp
  finally have "round_even (x / 2 powi ulp_exp x) = m * 2 ^ nat (e - ulp_exp x)"
    by (simp only: round_even_int)
  then have "fl x = of_int m * (2 powi (e - ulp_exp x) * 2 powi ulp_exp x)"
    unfolding fl_pos [OF x] using powi_int [OF le] by simp
  also have "\<dots> = x" unfolding xm powi_add by simp
  finally show ?thesis .
qed




lemma is_doubleI:
  "x = of_int m * 2 powi e \<Longrightarrow> \<bar>m\<bar> < 2 ^ 53 \<Longrightarrow> - 1074 \<le> e \<Longrightarrow> e \<le> 971 \<Longrightarrow> is_double x"
  unfolding is_double_def by blast




lemma is_double_int:
  assumes "\<bar>k\<bar> < 2 ^ 53"
  shows "is_double (of_int k)"
proof -
  have "real_of_int k = of_int k * 2 powi 0" by simp
  with assms show ?thesis by (intro is_doubleI [of _ k 0]) simp_all
qed

subsection \<open>The montage loop\<close>



lemma fl_of_int: "0 \<le> k \<Longrightarrow> k < 2 ^ 53 \<Longrightarrow> fl (of_int k) = of_int k"
  by (rule fl_exact [OF is_double_int]) simp_all



















text \<open>Small integers are doubles, so the sums of a run on them are evaluated exactly.\<close>

lemma fl_numeral: "(numeral w :: int) < 2 ^ 53 \<Longrightarrow> fl (numeral w) = numeral w"
  using fl_of_int [of "numeral w"] by simp

lemma fl_one: "fl 1 = 1"
  using fl_of_int [of 1] by simp


subsection \<open>Submission and the handler of a task function\<close>

lemma lenient_json_env_fields [simp]:
  "uuid4_src lenient_json_env = uuid4_src demo_env"
  "json_loads lenient_json_env t =
     (if t = ''NaN'' then Inr (PFloat NaN) else Inl (Exception ''Expecting value''))"
  by (simp_all add: lenient_json_env_def)

lemma no_ffmpeg_env_fields [simp]:
  "uuid4_src no_ffmpeg_env = uuid4_src demo_env"
  "str_strip no_ffmpeg_env = str_strip demo_env"
  "subprocess_run no_ffmpeg_env cmd = Inl (Exception ''No such file or directory: ffmpeg'')"
  "http_exception_str no_ffmpeg_env = http_exception_str demo_env"
  "outputs_dir no_ffmpeg_env = outputs_dir demo_env"
  "uploads_dir no_ffmpeg_env = uploads_dir demo_env"
  "file_write no_ffmpeg_env = file_write demo_env"
  by (simp_all add: no_ffmpeg_env_def)

lemma submit_writes:
  "\<exists>ws. write_log (snd (snd (submit e bt sub s))) = write_log s @ ws \<and>
     tasks_storage (snd (snd (submit e bt sub s))) = replay (tasks_storage s) ws \<and>
     (ws = [] \<or> (\<exists>job_id. map write_summary ws = [(job_id, ''pending'', Some 0)]))"
  by (cases sub)
     (auto simp: start_mix_def start_srt_sync_def start_montage_def start_image_gen_def
        uuid4_hex_def Let_def replay_def split: sum.splits)

lemma probe_error_env_fields [simp]:
  "uuid4_src probe_error_env = uuid4_src demo_env"
  "str_strip probe_error_env = str_strip demo_env"
  "random_src probe_error_env = random_src demo_env"
  "subprocess_run probe_error_env = subprocess_run demo_env"
  "float_of_str probe_error_env t = Inl (Exception ''could not convert string to float'')"
  "abspath probe_error_env = abspath demo_env"
  "file_write probe_error_env = file_write demo_env"
  "outputs_dir probe_error_env = outputs_dir demo_env"
  by (simp_all add: probe_error_env_def)

lemma no_camera_env_fields [simp]:
  "uuid4_src no_camera_env = uuid4_src demo_env"
  "str_strip no_camera_env = str_strip demo_env"
  "random_src no_camera_env = random_src demo_env"
  "subprocess_run no_camera_env = subprocess_run demo_env"
  "float_of_str no_camera_env = float_of_str demo_env"
  "json_loads no_camera_env t = Inr (PList [])"
  "abspath no_camera_env = abspath demo_env"
  "file_write no_camera_env = file_write demo_env"
  "outputs_dir no_camera_env = outputs_dir demo_env"
  by (simp_all add: no_camera_env_def)

lemma silent_env_fields [simp]:
  "uuid4_src silent_env = uuid4_src demo_env"
  "str_strip silent_env = str_strip demo_env"
  "random_src silent_env = random_src demo_env"
  "subprocess_run silent_env = subprocess_run demo_env"
  "float_of_str silent_env t = Inr 0"
  "json_loads silent_env t = Inr (PList [])"
  "abspath silent_env = abspath demo_env"
  "file_write silent_env = file_write demo_env"
  "outputs_dir silent_env = outputs_dir demo_env"
  by (simp_all add: silent_env_def)

lemma submit_accepted:
  assumes "submit e bt sub s = (Inr r, bt', s')"
  shows "r = PDict [(''job_id'', PStr (uuid4_src e (uuid_pos s)))] \<and>
         s' = update_task_status e (uuid4_src e (uuid_pos s)) ''pending'' PNone 0
                (s\<lparr>uuid_pos := Suc (uuid_pos s)\<rparr>) \<and>
         (\<exists>t. bt' = bt @ [t] \<and> task_id_of t = uuid4_src e (uuid_pos s))"
  using assms
  by (cases sub)
     (auto simp: start_mix_def start_srt_sync_def start_montage_def start_image_gen_def
        uuid4_hex_def Let_def split: sum.splits)

lemma fresh_draw:
  assumes "inj (uuid4_src e)" and "dom (tasks_storage s) \<subseteq> uuid4_src e ` {..<uuid_pos s}"
  shows "uuid4_src e (uuid_pos s) \<notin> dom (tasks_storage s)"
proof
  assume "uuid4_src e (uuid_pos s) \<in> dom (tasks_storage s)"
  with assms(2) obtain k where "k < uuid_pos s" "uuid4_src e (uuid_pos s) = uuid4_src e k"
    by auto
  with assms(1) show False by (auto dest: injD)
qed

lemma created_progress:
  "sm = [] \<or> (\<exists>job_id. sm = [(job_id, ''pending'', Some 0)]) \<Longrightarrow>
   progress_in_range sm \<and> created_at_0 sm"
  by (auto simp: progress_in_range_def created_at_0_def)

lemma traces_progress:
  "sm \<in> task_traces tid \<Longrightarrow>
   progress_in_range sm \<and> sorted (processing_progress sm) \<and> completed_at_100 sm"
  unfolding task_traces_def
  by (elim insertE emptyE)
     (simp_all add: progress_in_range_def processing_progress_def completed_at_100_def)

lemma replay_keeps:
  "\<forall>k r. m k = Some r \<longrightarrow> ok r \<Longrightarrow> list_all (\<lambda>w. ok (snd w)) ws \<Longrightarrow>
   \<forall>k r. replay m ws k = Some r \<longrightarrow> ok r"
proof (induction ws arbitrary: m)
  case Nil
  then show ?case by (simp add: replay_def)
next
  case (Cons w ws)
  have a: "\<forall>k r. (m(fst w \<mapsto> snd w)) k = Some r \<longrightarrow> ok r"
    using Cons.prems by auto
  have b: "list_all (\<lambda>w. ok (snd w)) ws" using Cons.prems(2) by simp
  have "replay m (w # ws) = replay (m(fst w \<mapsto> snd w)) ws" by (simp add: replay_def)
  with Cons.IH [of "m(fst w \<mapsto> snd w)", OF a b] show ?case by (simp only:)
qed

lemma progress_in_range_writes:
  "progress_in_range (map write_summary ws) =
     list_all (\<lambda>w. \<exists>p. progress_of (snd w) = Some p \<and> 0 \<le> p \<and> p \<le> 100) ws"
  by (induction ws) (auto simp: progress_in_range_def write_summary_def split: option.splits)

lemma registry_in_range_replay:
  assumes r: "registry_in_range s" and t: "tasks_storage s' = replay (tasks_storage s) ws"
    and p: "progress_in_range (map write_summary ws)"
  shows "registry_in_range s'"
proof -
  let ?ok = "\<lambda>r. \<exists>p. progress_of r = Some p \<and> 0 \<le> p \<and> p \<le> 100"
  have a: "\<forall>k r. tasks_storage s k = Some r \<longrightarrow> ?ok r"
    using r unfolding registry_in_range_def .
  have b: "list_all (\<lambda>w. ?ok (snd w)) ws"
    using p unfolding progress_in_range_writes .
  from replay_keeps [of "tasks_storage s" ?ok ws, OF a b]
  show ?thesis unfolding registry_in_range_def t .
qed

lemma run_task_handler:
  "run_task e t s =
     (case run_task_try e t s of
        (Inl x, s1) \<Rightarrow>
          (Inr (), update_task_status e (task_id_of t) ''failed''
                     (PDict [(''error'', PStr (str_exn x))]) 0 s1)
      | (Inr u, s1) \<Rightarrow> (Inr (), s1))"
  by (cases t)
     (auto simp: run_mix_task_def run_srt_sync_task_def run_montage_task_def
        run_image_gen_task_def split: prod.splits sum.splits)

subsection \<open>The montage task\<close>




lemma generate_premiere_xml_no_cameras:
  assumes "0 < d"
  shows "\<exists>x. generate_premiere_xml e audio_path (PList []) style d s = (Inl x, s)"
proof (cases "abspath e (PStr audio_path)")
  case (Inl x)
  then show ?thesis by (simp add: generate_premiere_xml_def)
next
  case (Inr q)
  have "premiere_cuts e style d 0 (random_pos s) 0 []
          = Some (Inl (Exception (''empty range in randrange('' @ int_str 0 @ '', '' @
                           int_str 0 @ '')'')), random_pos s)"
    using assms by (subst premiere_cuts.simps) (simp add: random_randint_def)
  with Inr show ?thesis
    by (simp add: generate_premiere_xml_def py_iter_def py_len_def)
qed

section \<open>Properties\<close>

text \<open>
  C1, as the code has it: a task function never lets an exception out. When the body of
  its \<^verbatim>\<open>try\<close> stops at an exception \<open>x\<close>, the handler writes the record with status
  \<open>failed\<close>, result \<open>{"error": str(x)}\<close> and progress 0, the default of
  \<open>update_task_status\<close>; that write is the last one of the execution. (An exception
  inside \<open>generate_srt_via_ai\<close> or \<open>get_audio_duration\<close> is handled there and does not
  reach the task function.)
\<close>

theorem task_failure_recorded:
  "fst (run_task e t s) = Inr () \<and>
   (run_task_try e t s = (Inl x, s1) \<longrightarrow>
      run_task e t s =
        (Inr (), update_task_status e (task_id_of t) ''failed''
                   (PDict [(''error'', PStr (str_exn x))]) 0 s1) \<and>
      get_task_status (snd (run_task e t s)) (task_id_of t) =
        PDict [(''status'', PStr ''failed''), (''result'', PDict [(''error'', PStr (str_exn x))]),
               (''progress'', PInt 0), (''updated_at'', PStr (uuid4_src e (uuid_pos s1)))] \<and>
      write_log (snd (run_task e t s)) =
        write_log s1 @ [(task_id_of t, get_task_status (snd (run_task e t s)) (task_id_of t))])"
  by (auto simp: run_task_handler get_task_status_def split: prod.splits sum.splits)

theorem task_failure_recorded_witness:
  "run_task_try no_ffmpeg_env (Run_mix_task ''j'' ''v.mp3'' ''s.mp3'') init_state =
     (Inl (Exception ''FFmpeg is not installed on the server.''),
      update_task_status no_ffmpeg_env ''j'' ''processing''
        (PDict [(''message'', PStr msg_mix_start)]) 10 init_state) \<and>
   fst (run_task no_ffmpeg_env (Run_mix_task ''j'' ''v.mp3'' ''s.mp3'') init_state) = Inr () \<and>
   get_task_status (snd (run_task no_ffmpeg_env (Run_mix_task ''j'' ''v.mp3'' ''s.mp3'') init_state)) ''j'' =
     PDict [(''status'', PStr ''failed''),
            (''result'', PDict [(''error'', PStr ''FFmpeg is not installed on the server.'')]),
            (''progress'', PInt 0), (''updated_at'', PStr ''aa'')]"
proof -
  have tried: "run_task_try no_ffmpeg_env (Run_mix_task ''j'' ''v.mp3'' ''s.mp3'') init_state =
     (Inl (Exception ''FFmpeg is not installed on the server.''),
      update_task_status no_ffmpeg_env ''j'' ''processing''
        (PDict [(''message'', PStr msg_mix_start)]) 10 init_state)"
    by (simp add: run_mix_task_try_def mix_audio_aza_def ensure_ffmpeg_def Let_def)
  show ?thesis
    using tried task_failure_recorded [of no_ffmpeg_env "Run_mix_task ''j'' ''v.mp3'' ''s.mp3''"
        init_state "Exception ''FFmpeg is not installed on the server.''"
        "update_task_status no_ffmpeg_env ''j'' ''processing''
           (PDict [(''message'', PStr msg_mix_start)]) 10 init_state"]
    by (simp add: get_task_status_def)
qed

text \<open>
  C1 as stated fails on the progress: when ffmpeg is missing, the mix task has reported
  progress 10 when the exception is raised, and the \<open>failed\<close> record has progress 0.
\<close>

theorem failed_progress_counterexample:
  "fst (run_task_try no_ffmpeg_env (Run_mix_task ''j'' ''v.mp3'' ''s.mp3'') init_state)
     = Inl (Exception ''FFmpeg is not installed on the server.'') \<and>
   progress_of (get_task_status
      (snd (run_task_try no_ffmpeg_env (Run_mix_task ''j'' ''v.mp3'' ''s.mp3'') init_state)) ''j'')
     = Some 10 \<and>
   status_of (get_task_status
      (snd (run_task no_ffmpeg_env (Run_mix_task ''j'' ''v.mp3'' ''s.mp3'') init_state)) ''j'')
     = ''failed'' \<and>
   progress_of (get_task_status
      (snd (run_task no_ffmpeg_env (Run_mix_task ''j'' ''v.mp3'' ''s.mp3'') init_state)) ''j'')
     = Some 0"
  by (simp add: run_mix_task_def run_mix_task_try_def mix_audio_aza_def ensure_ffmpeg_def
        get_task_status_def status_of_def progress_of_def Let_def)

text \<open>
  What \<open>generate_srt_via_ai\<close> raises does not reach the task function: with ffmpeg
  missing, the subtitle task writes the text of the error as the subtitle file and ends
  \<open>completed\<close>.
\<close>

lemma srt_sync_error_is_content:
  "fst (generate_srt_via_ai no_ffmpeg_env ''a.mp3'' ''ly'' init_state)
     = Inr ''ALIGMENT_ERROR: FFmpeg is not installed on the server.'' \<and>
   write_statuses (write_log (snd (run_task no_ffmpeg_env
       (Run_srt_sync_task ''j'' ''a.mp3'' ''ly'') init_state)))
     = [''processing'', ''completed'']"
  by (simp add: run_srt_sync_task_def run_srt_sync_task_try_def generate_srt_via_ai_def
        generate_srt_via_ai_try_def ensure_ffmpeg_def uuid4_hex_def write_statuses_def
        status_of_def Let_def)

text \<open>
  C2: the statuses that one execution of a task function writes never move backward
  along \<open>pending < processing < {completed, failed}\<close> (the record was created as
  \<open>pending\<close>), all its writes go to the job's own id, and a terminal status is the last
  thing the execution writes.
\<close>

theorem task_status_sequence:
  "\<exists>ws. write_log (snd (run_task e t s)) = write_log s @ ws \<and>
        map fst ws = replicate (length ws) (task_id_of t) \<and>
        sorted (map status_rank (''pending'' # write_statuses ws)) \<and>
        no_write_after_terminal (write_statuses ws) \<and>
        ws \<noteq> [] \<and> terminal (last (write_statuses ws))"
proof -
  obtain ws where ws: "write_log (snd (run_task e t s)) = write_log s @ ws"
    and tr: "map write_summary ws \<in> task_traces (task_id_of t)"
    using run_task_writes by blast
  define sm where "sm = map write_summary ws"
  have eqs: "length ws = length sm" "map fst ws = map fst sm"
    "write_statuses ws = map (\<lambda>x. fst (snd x)) sm" "(ws = []) = (sm = [])"
    by (simp_all add: sm_def write_statuses_summary write_summary_def)
  have "sm \<in> task_traces (task_id_of t)" using tr by (simp add: sm_def)
  then have "map fst sm = replicate (length sm) (task_id_of t) \<and>
        sorted (map status_rank (''pending'' # map (\<lambda>x. fst (snd x)) sm)) \<and>
        no_write_after_terminal (map (\<lambda>x. fst (snd x)) sm) \<and>
        sm \<noteq> [] \<and> terminal (last (map (\<lambda>x. fst (snd x)) sm))"
    unfolding task_traces_def
    by (elim insertE emptyE) (simp_all add: status_rank_def terminal_def)
  then have "map fst ws = replicate (length ws) (task_id_of t) \<and>
        sorted (map status_rank (''pending'' # write_statuses ws)) \<and>
        no_write_after_terminal (write_statuses ws) \<and>
        ws \<noteq> [] \<and> terminal (last (write_statuses ws))"
    by (simp add: eqs)
  with ws show ?thesis by blast
qed


theorem task_status_sequence_witness:
  "(\<exists>ws. write_log (snd (run_task demo_env
             (Run_montage_task ''j'' ''a.mp3'' (PList [PStr ''c.mp4'']) ''ly'' ''internal'')
             init_state)) = write_log init_state @ ws \<and>
        map fst ws = replicate (length ws) ''j'' \<and>
        sorted (map status_rank (''pending'' # write_statuses ws)) \<and>
        no_write_after_terminal (write_statuses ws) \<and>
        ws \<noteq> [] \<and> terminal (last (write_statuses ws))) \<and>
   write_statuses (write_log (snd (run_task demo_env
       (Run_montage_task ''j'' ''a.mp3'' (PList [PStr ''c.mp4'']) ''ly'' ''internal'')
       init_state))) = [''processing'', ''processing'', ''processing'', ''completed'']"
proof -
  have "write_statuses (write_log (snd (run_task demo_env
       (Run_montage_task ''j'' ''a.mp3'' (PList [PStr ''c.mp4'']) ''ly'' ''internal'')
       init_state))) = [''processing'', ''processing'', ''processing'', ''completed'']"
    by (simp add: run_montage_task_def run_montage_task_try_def get_audio_duration_def
         generate_premiere_xml_def py_iter_def py_len_def premiere_cuts.simps
         random_randint_def random_uniform_def random_random_def cut_duration_def
         float_add_def float_sub_def float_mul_def fl_numeral fl_one
         write_statuses_def status_of_def Let_def)
  then show ?thesis
    using task_status_sequence [of demo_env
        "Run_montage_task ''j'' ''a.mp3'' (PList [PStr ''c.mp4'']) ''ly'' ''internal''" init_state]
    by simp
qed

text \<open>
  C3: every progress written to the registry is an integer from 0 to 100. A submission
  writes at most the creation record, with progress 0; in one execution of a task
  function the progress of the writes with status \<open>processing\<close> never decreases, and
  every write with status \<open>completed\<close> has progress 100. So a registry whose records all
  have a progress from 0 to 100, as the empty registry has, is again such a registry
  after a submission and after the run of a task function.
\<close>

theorem progress_of_writes:
  "(\<exists>ws. write_log (snd (snd (submit e background_tasks sub s))) = write_log s @ ws \<and>
          tasks_storage (snd (snd (submit e background_tasks sub s)))
            = replay (tasks_storage s) ws \<and>
          progress_in_range (map write_summary ws) \<and> created_at_0 (map write_summary ws)) \<and>
   (\<exists>ws. write_log (snd (run_task e t s)) = write_log s @ ws \<and>
          tasks_storage (snd (run_task e t s)) = replay (tasks_storage s) ws \<and>
          progress_in_range (map write_summary ws) \<and>
          sorted (processing_progress (map write_summary ws)) \<and>
          completed_at_100 (map write_summary ws)) \<and>
   (tasks_storage s = Map.empty \<longrightarrow> registry_in_range s) \<and>
   (registry_in_range s \<longrightarrow>
      registry_in_range (snd (snd (submit e background_tasks sub s))) \<and>
      registry_in_range (snd (run_task e t s)))"
proof -
  obtain ws where ws: "write_log (snd (snd (submit e background_tasks sub s))) = write_log s @ ws"
    and rs: "tasks_storage (snd (snd (submit e background_tasks sub s)))
               = replay (tasks_storage s) ws"
    and c: "ws = [] \<or> (\<exists>job_id. map write_summary ws = [(job_id, ''pending'', Some 0)])"
    using submit_writes [of e background_tasks sub s] by (elim exE conjE)
  from c have "map write_summary ws = [] \<or>
      (\<exists>job_id. map write_summary ws = [(job_id, ''pending'', Some 0)])"
    by auto
  note cp = created_progress [OF this]
  obtain wt where wt: "write_log (snd (run_task e t s)) = write_log s @ wt"
    and rt: "tasks_storage (snd (run_task e t s)) = replay (tasks_storage s) wt"
    and tr: "map write_summary wt \<in> task_traces (task_id_of t)"
    using run_task_writes [of e t s] by (elim exE conjE)
  note tp = traces_progress [OF tr]
  have submitted: "\<exists>ws. write_log (snd (snd (submit e background_tasks sub s))) = write_log s @ ws \<and>
          tasks_storage (snd (snd (submit e background_tasks sub s)))
            = replay (tasks_storage s) ws \<and>
          progress_in_range (map write_summary ws) \<and> created_at_0 (map write_summary ws)"
    using ws rs cp by - (rule exI [of _ ws], simp)
  have ran: "\<exists>ws. write_log (snd (run_task e t s)) = write_log s @ ws \<and>
          tasks_storage (snd (run_task e t s)) = replay (tasks_storage s) ws \<and>
          progress_in_range (map write_summary ws) \<and>
          sorted (processing_progress (map write_summary ws)) \<and>
          completed_at_100 (map write_summary ws)"
    using wt rt tp by - (rule exI [of _ wt], simp)
  have base: "tasks_storage s = Map.empty \<longrightarrow> registry_in_range s"
    by (simp add: registry_in_range_def)
  have step: "registry_in_range s \<longrightarrow>
      registry_in_range (snd (snd (submit e background_tasks sub s))) \<and>
      registry_in_range (snd (run_task e t s))"
    using registry_in_range_replay [OF _ rs] registry_in_range_replay [OF _ rt] cp tp
    by simp
  from submitted ran base step show ?thesis by (intro conjI)
qed

theorem progress_of_writes_witness:
  "map write_summary (write_log (snd (snd (submit demo_env [] (Image_gen ''a cat'') init_state))))
     = [(''a'', ''pending'', Some 0)] \<and>
   map write_summary (write_log (snd (run_task demo_env (Run_image_gen_task ''a'' ''a cat'')
        init_state)))
     = [(''a'', ''processing'', Some 50), (''a'', ''completed'', Some 100)] \<and>
   tasks_storage init_state = Map.empty \<and> registry_in_range init_state \<and>
   registry_in_range (snd (snd (submit demo_env [] (Image_gen ''a cat'') init_state))) \<and>
   registry_in_range (snd (run_task demo_env (Run_image_gen_task ''a'' ''a cat'') init_state))"
proof -
  have "map write_summary (write_log (snd (snd (submit demo_env [] (Image_gen ''a cat'')
          init_state)))) = [(''a'', ''pending'', Some 0)]"
    by (simp add: start_image_gen_def uuid4_hex_def)
  moreover have "map write_summary (write_log (snd (run_task demo_env
          (Run_image_gen_task ''a'' ''a cat'') init_state)))
     = [(''a'', ''processing'', Some 50), (''a'', ''completed'', Some 100)]"
    by (simp add: run_image_gen_task_def run_image_gen_task_try_def Let_def)
  ultimately show ?thesis
    using progress_of_writes [of demo_env "[]" "Image_gen ''a cat''" init_state
        "Run_image_gen_task ''a'' ''a cat''"]
    by simp
qed

text \<open>
  C4: for a job id that is not a key of the registry, the status endpoint returns the
  not-found record, whose status is \<^verbatim>\<open>NOT_FOUND\<close> and whose progress is 0; it returns
  a response, not an exception, and the state after the lookup is the state before.
\<close>

theorem get_status_unknown_id:
  assumes "tasks_storage s job_id = None"
  shows "get_status job_id s =
           (Inr (PDict [(''status'', PStr ''NOT_FOUND''), (''progress'', PInt 0)]), s)"
  using assms by (simp add: get_status_def get_task_status_def)

theorem get_status_unknown_id_witness:
  "tasks_storage init_state ''never-submitted'' = None \<and>
   get_status ''never-submitted'' init_state =
     (Inr (PDict [(''status'', PStr ''NOT_FOUND''), (''progress'', PInt 0)]), init_state)"
  using get_status_unknown_id [of init_state "''never-submitted''"] by simp

text \<open>
  C5: a submission that an endpoint accepts draws a new job id, writes for it the record
  with status \<open>pending\<close>, no result and progress 0 before it returns, schedules the task
  function for that id and returns the id, so that a status query right after it returns
  that \<open>pending\<close> record. The id is the next draw of \<^verbatim>\<open>uuid4\<close>: it is not yet a key of the
  registry when draws never repeat and the keys are earlier draws. Only a montage
  submission whose \<open>video_paths\<close> does not parse is not accepted.
\<close>

theorem submit_registers_pending:
  "(submit e background_tasks sub s = (Inr r, background_tasks', s') \<longrightarrow>
      (\<exists>job_id tok.
           job_id = uuid4_src e (uuid_pos s) \<and>
           r = PDict [(''job_id'', PStr job_id)] \<and>
           tasks_storage s' job_id =
             Some (PDict [(''status'', PStr ''pending''), (''result'', PNone),
                          (''progress'', PInt 0), (''updated_at'', PStr tok)]) \<and>
           get_status job_id s' =
             (Inr (PDict [(''status'', PStr ''pending''), (''result'', PNone),
                          (''progress'', PInt 0), (''updated_at'', PStr tok)]), s') \<and>
           (\<exists>t. background_tasks' = background_tasks @ [t] \<and> task_id_of t = job_id) \<and>
           (inj (uuid4_src e) \<and> dom (tasks_storage s) \<subseteq> uuid4_src e ` {..<uuid_pos s}
              \<longrightarrow> job_id \<notin> dom (tasks_storage s)))) \<and>
   (fst (submit e background_tasks sub s) = Inl x \<longrightarrow>
      (\<exists>audio_path video_paths lyrics style.
          sub = Montage audio_path video_paths lyrics style \<and> json_loads e video_paths = Inl x))"
proof (intro conjI impI)
  assume a: "submit e background_tasks sub s = (Inr r, background_tasks', s')"
  from submit_accepted [OF a] fresh_draw [of e s]
  show "\<exists>job_id tok.
           job_id = uuid4_src e (uuid_pos s) \<and>
           r = PDict [(''job_id'', PStr job_id)] \<and>
           tasks_storage s' job_id =
             Some (PDict [(''status'', PStr ''pending''), (''result'', PNone),
                          (''progress'', PInt 0), (''updated_at'', PStr tok)]) \<and>
           get_status job_id s' =
             (Inr (PDict [(''status'', PStr ''pending''), (''result'', PNone),
                          (''progress'', PInt 0), (''updated_at'', PStr tok)]), s') \<and>
           (\<exists>t. background_tasks' = background_tasks @ [t] \<and> task_id_of t = job_id) \<and>
           (inj (uuid4_src e) \<and> dom (tasks_storage s) \<subseteq> uuid4_src e ` {..<uuid_pos s}
              \<longrightarrow> job_id \<notin> dom (tasks_storage s))"
    by (auto simp: get_status_def get_task_status_def)
next
  assume "fst (submit e background_tasks sub s) = Inl x"
  then show "\<exists>audio_path video_paths lyrics style.
          sub = Montage audio_path video_paths lyrics style \<and> json_loads e video_paths = Inl x"
    by (cases sub)
       (auto simp: start_mix_def start_srt_sync_def start_montage_def start_image_gen_def
          uuid4_hex_def Let_def split: sum.splits)
qed

theorem submit_registers_pending_witness:
  "submit demo_env [] (Mix ''v.mp3'' ''s.mp3'') init_state =
     (Inr (PDict [(''job_id'', PStr ''a'')]), [Run_mix_task ''a'' ''v.mp3'' ''s.mp3''],
      update_task_status demo_env ''a'' ''pending'' PNone 0 (init_state\<lparr>uuid_pos := Suc 0\<rparr>)) \<and>
   inj (uuid4_src demo_env) \<and>
   dom (tasks_storage init_state) \<subseteq> uuid4_src demo_env ` {..<uuid_pos init_state} \<and>
   ''a'' \<notin> dom (tasks_storage init_state) \<and>
   get_status ''a''
       (update_task_status demo_env ''a'' ''pending'' PNone 0 (init_state\<lparr>uuid_pos := Suc 0\<rparr>)) =
     (Inr (PDict [(''status'', PStr ''pending''), (''result'', PNone),
                  (''progress'', PInt 0), (''updated_at'', PStr ''aa'')]),
      update_task_status demo_env ''a'' ''pending'' PNone 0 (init_state\<lparr>uuid_pos := Suc 0\<rparr>))"
proof -
  have sub: "submit demo_env [] (Mix ''v.mp3'' ''s.mp3'') init_state =
     (Inr (PDict [(''job_id'', PStr ''a'')]), [Run_mix_task ''a'' ''v.mp3'' ''s.mp3''],
      update_task_status demo_env ''a'' ''pending'' PNone 0 (init_state\<lparr>uuid_pos := Suc 0\<rparr>))"
    by (simp add: start_mix_def uuid4_hex_def)
  have inj: "inj (uuid4_src demo_env)" by (simp add: inj_def)
  show ?thesis
    using sub inj
      submit_registers_pending [of demo_env "[]" "Mix ''v.mp3'' ''s.mp3''" init_state
        "PDict [(''job_id'', PStr ''a'')]" "[Run_mix_task ''a'' ''v.mp3'' ''s.mp3'']"
        "update_task_status demo_env ''a'' ''pending'' PNone 0 (init_state\<lparr>uuid_pos := Suc 0\<rparr>)"]
    by (simp add: get_status_def get_task_status_def)
qed




text \<open>
  C7: polling the status endpoint any number of times in a row returns the same
  snapshot every time, the record of the job in the registry (or the not-found record),
  and leaves the state as it was.
\<close>

theorem poll_idempotent:
  "poll n job_id s = (replicate n (Inr (get_task_status s job_id)), s)"
  by (induction n) (simp_all add: get_status_def)




text \<open>
  C9, as the code has it: a montage submission whose \<open>video_paths\<close> field makes
  \<^verbatim>\<open>json.loads\<close> raise leaves the endpoint as that exception; no job id is drawn,
  nothing is scheduled and the state, the registry with it, is as before.
\<close>

theorem start_montage_rejects_bad_json:
  assumes "json_loads e video_paths = Inl x"
  shows "start_montage e background_tasks audio_path video_paths lyrics style s
           = (Inl x, background_tasks, s)"
  using assms by (simp add: start_montage_def)

theorem start_montage_rejects_bad_json_witness:
  "json_loads bad_json_env ''not json'' = Inl (Exception ''Expecting value'') \<and>
   start_montage bad_json_env [] ''a.mp3'' ''not json'' ''ly'' ''internal'' init_state
     = (Inl (Exception ''Expecting value''), [], init_state)"
  using start_montage_rejects_bad_json [of bad_json_env "''not json''" "Exception ''Expecting value''"
          "[]" "''a.mp3''" "''ly''" "''internal''" init_state]
  by (simp add: bad_json_env_def)

text \<open>
  C9 as stated fails for a text that is not valid JSON and that \<^verbatim>\<open>json.loads\<close> reads all
  the same: for \<^verbatim>\<open>NaN\<close> the endpoint draws the id \<open>a\<close>, writes its \<open>pending\<close> record and
  schedules the task.
\<close>

theorem start_montage_nan_counterexample:
  "\<not> starts_like_json ''NaN'' \<and>
   json_loads lenient_json_env ''NaN'' = Inr (PFloat NaN) \<and>
   start_montage lenient_json_env [] ''a.mp3'' ''NaN'' ''ly'' ''internal'' init_state =
     (Inr (PDict [(''job_id'', PStr ''a'')]),
      [Run_montage_task ''a'' ''a.mp3'' (PFloat NaN) ''ly'' ''internal''],
      update_task_status lenient_json_env ''a'' ''pending'' PNone 0
        (init_state\<lparr>uuid_pos := Suc 0\<rparr>)) \<and>
   get_task_status
     (snd (snd (start_montage lenient_json_env [] ''a.mp3'' ''NaN'' ''ly'' ''internal'' init_state)))
     ''a'' =
     PDict [(''status'', PStr ''pending''), (''result'', PNone), (''progress'', PInt 0),
            (''updated_at'', PStr ''aa'')] \<and>
   tasks_storage init_state ''a'' = None"
  by (simp add: starts_like_json_def json_space_def start_montage_def uuid4_hex_def
        get_task_status_def)

text \<open>
  C10, as the code has it: a montage submission whose \<open>video_paths\<close> decodes to the
  empty list is accepted, and when the duration of the audio is greater than 0 (the
  default 300 of a failed probe included) the task raises in \<open>generate_premiere_xml\<close>
  and ends \<open>failed\<close> with an error payload, after three writes with status
  \<open>processing\<close>; it writes no \<open>completed\<close>.
\<close>

theorem montage_without_cameras_fails:
  assumes "json_loads e video_paths = Inr (PList [])"
    and "get_audio_duration e audio_path = Inr d" and "0 < d"
  shows "\<exists>job_id s1.
           start_montage e background_tasks audio_path video_paths lyrics style s =
             (Inr (PDict [(''job_id'', PStr job_id)]),
              background_tasks @ [Run_montage_task job_id audio_path (PList []) lyrics style],
              s1) \<and>
           (\<forall>s2. \<exists>x tok.
              fst (run_task_try e (Run_montage_task job_id audio_path (PList []) lyrics style) s2)
                = Inl x \<and>
              get_task_status
                (snd (run_task e (Run_montage_task job_id audio_path (PList []) lyrics style) s2))
                job_id =
                PDict [(''status'', PStr ''failed''),
                       (''result'', PDict [(''error'', PStr (str_exn x))]),
                       (''progress'', PInt 0), (''updated_at'', PStr tok)] \<and>
              (\<exists>ws. write_log
                      (snd (run_task e (Run_montage_task job_id audio_path (PList []) lyrics style) s2))
                      = write_log s2 @ ws \<and>
                    write_statuses ws = [''processing'', ''processing'', ''processing'', ''failed'']))"
proof -
  define job_id where "job_id = uuid4_src e (uuid_pos s)"
  have sub: "start_montage e background_tasks audio_path video_paths lyrics style s =
             (Inr (PDict [(''job_id'', PStr job_id)]),
              background_tasks @ [Run_montage_task job_id audio_path (PList []) lyrics style],
              update_task_status e job_id ''pending'' PNone 0 (s\<lparr>uuid_pos := Suc (uuid_pos s)\<rparr>))"
    by (simp add: start_montage_def assms(1) uuid4_hex_def job_id_def)
  have run: "\<exists>x tok.
              fst (run_task_try e (Run_montage_task job_id audio_path (PList []) lyrics style) s2)
                = Inl x \<and>
              get_task_status
                (snd (run_task e (Run_montage_task job_id audio_path (PList []) lyrics style) s2))
                job_id =
                PDict [(''status'', PStr ''failed''),
                       (''result'', PDict [(''error'', PStr (str_exn x))]),
                       (''progress'', PInt 0), (''updated_at'', PStr tok)] \<and>
              (\<exists>ws. write_log
                      (snd (run_task e (Run_montage_task job_id audio_path (PList []) lyrics style) s2))
                      = write_log s2 @ ws \<and>
                    write_statuses ws = [''processing'', ''processing'', ''processing'', ''failed''])"
    for s2
  proof -
    define s3 where "s3 =
      update_task_status e job_id ''processing'' (PDict [(''message'', PStr msg_montage_build)]) 70
        (update_task_status e job_id ''processing'' (PDict [(''message'', PStr msg_montage_duration)]) 35
          (update_task_status e job_id ''processing'' (PDict [(''message'', PStr msg_montage_start)]) 10 s2))"
    from generate_premiere_xml_no_cameras [OF assms(3), of e audio_path style s3]
    obtain x where g: "generate_premiere_xml e audio_path (PList []) style d s3 = (Inl x, s3)"
      by blast
    have t: "run_montage_task_try e job_id audio_path (PList []) lyrics style s2 = (Inl x, s3)"
      using g unfolding s3_def
      by (simp add: run_montage_task_try_def assms(2) Let_def)
    show ?thesis
      apply (rule exI [of _ x])
      apply (rule exI [of _ "uuid4_src e (uuid_pos s3)"])
      apply (simp add: run_montage_task_def t get_task_status_def)
      apply (simp add: s3_def write_statuses_def status_of_def)
      done
  qed
  from sub run show ?thesis
    by - (rule exI [of _ job_id], rule exI, rule conjI, assumption, simp)
qed

theorem montage_without_cameras_fails_witness:
  "json_loads no_camera_env ''[]'' = Inr (PList []) \<and>
   get_audio_duration no_camera_env ''a.mp3'' = Inr 10 \<and> (0::real) < 10 \<and>
   status_of (get_task_status
     (snd (run_task no_camera_env (Run_montage_task ''a'' ''a.mp3'' (PList []) ''ly'' ''internal'')
        (snd (snd (start_montage no_camera_env [] ''a.mp3'' ''[]'' ''ly'' ''internal'' init_state)))))
     ''a'') = ''failed'' \<and>
   (\<exists>job_id s1.
      start_montage no_camera_env [] ''a.mp3'' ''[]'' ''ly'' ''internal'' init_state =
        (Inr (PDict [(''job_id'', PStr job_id)]),
         [] @ [Run_montage_task job_id ''a.mp3'' (PList []) ''ly'' ''internal''], s1) \<and>
      (\<forall>s2. \<exists>x tok.
         fst (run_task_try no_camera_env
                (Run_montage_task job_id ''a.mp3'' (PList []) ''ly'' ''internal'') s2) = Inl x \<and>
         get_task_status
           (snd (run_task no_camera_env
                   (Run_montage_task job_id ''a.mp3'' (PList []) ''ly'' ''internal'') s2))
           job_id =
           PDict [(''status'', PStr ''failed''),
                  (''result'', PDict [(''error'', PStr (str_exn x))]),
                  (''progress'', PInt 0), (''updated_at'', PStr tok)] \<and>
         (\<exists>ws. write_log
                 (snd (run_task no_camera_env
                         (Run_montage_task job_id ''a.mp3'' (PList []) ''ly'' ''internal'') s2))
                 = write_log s2 @ ws \<and>
               write_statuses ws = [''processing'', ''processing'', ''processing'', ''failed''])))"
proof -
  have j: "json_loads no_camera_env ''[]'' = Inr (PList [])" by simp
  have d: "get_audio_duration no_camera_env ''a.mp3'' = Inr 10"
    by (simp add: get_audio_duration_def)
  have st: "status_of (get_task_status
     (snd (run_task no_camera_env (Run_montage_task ''a'' ''a.mp3'' (PList []) ''ly'' ''internal'')
        (snd (snd (start_montage no_camera_env [] ''a.mp3'' ''[]'' ''ly'' ''internal'' init_state)))))
     ''a'') = ''failed''"
    by (simp add: start_montage_def uuid4_hex_def run_montage_task_def run_montage_task_try_def
          get_audio_duration_def generate_premiere_xml_def py_iter_def py_len_def
          premiere_cuts.simps random_randint_def get_task_status_def status_of_def Let_def)
  show ?thesis
    using j d st
      montage_without_cameras_fails [OF j d, where background_tasks = "[]"
        and lyrics = "''ly''" and style = "''internal''" and s = init_state]
    by simp
qed

text \<open>
  C10 as stated fails when the duration is 0: the loop of \<open>generate_premiere_xml\<close> is not
  entered, no camera is chosen, and the task ends \<open>completed\<close> with a timeline of no
  clips.
\<close>

theorem montage_without_cameras_counterexample:
  "json_loads silent_env ''[]'' = Inr (PList []) \<and>
   fst (start_montage silent_env [] ''a.mp3'' ''[]'' ''ly'' ''internal'' init_state)
     = Inr (PDict [(''job_id'', PStr ''a'')]) \<and>
   fst (snd (start_montage silent_env [] ''a.mp3'' ''[]'' ''ly'' ''internal'' init_state))
     = [Run_montage_task ''a'' ''a.mp3'' (PList []) ''ly'' ''internal''] \<and>
   get_audio_duration silent_env ''a.mp3'' = Inr 0 \<and>
   status_of (get_task_status
     (snd (run_task silent_env (Run_montage_task ''a'' ''a.mp3'' (PList []) ''ly'' ''internal'')
        (snd (snd (start_montage silent_env [] ''a.mp3'' ''[]'' ''ly'' ''internal'' init_state)))))
     ''a'') = ''completed''"
  by (simp add: start_montage_def uuid4_hex_def run_montage_task_def run_montage_task_try_def
        get_audio_duration_def generate_premiere_xml_def py_iter_def py_len_def
        premiere_cuts.simps get_task_status_def status_of_def Let_def)

end
